theory Spec2Isabelle
  imports Complex_Main "HOL-Library.Multiset"
begin

section \<open>Batch transfer (useBatchTransfer.ts): a shallow embedding\<close>

text \<open>
  The development follows \<^verbatim>\<open>executeBatchTransfer\<close> and \<^verbatim>\<open>fetchNFTsFromMoralis\<close> of
  \<^verbatim>\<open>packages/uniswap/src/features/transactions/swap/hooks/useBatchTransfer.ts\<close>.

  Conventions of the model:
  \<^item> a JavaScript \<^verbatim>\<open>bigint\<close> is an \<^typ>\<open>int\<close>;
  \<^item> a JavaScript \<^verbatim>\<open>number\<close> that holds a USD value or a price is a \<^typ>\<open>real\<close>
    (a double is a real number; no NaN, no infinity); where the source tests \<^verbatim>\<open>isNaN\<close>
    the model has a \<^typ>\<open>real option\<close> with \<^term>\<open>None\<close> for NaN. Arithmetic that
    rounds to a double is a parameter of the model, so that the rounding is not fixed;
    comparisons and the sign of a difference of two doubles are exact;
  \<^item> a JavaScript string is a \<^typ>\<open>string\<close>; a value that may be \<^verbatim>\<open>undefined\<close>,
    \<^verbatim>\<open>null\<close> or of another type is an option or a datatype of its own;
  \<^item> console logging and the text of descriptions and alerts are left out.
\<close>

subsection \<open>String primitives\<close>

text \<open>\<^verbatim>\<open>String.prototype.padStart(n, c)\<close> with a one-character filler.\<close>

definition padStart :: "nat \<Rightarrow> char \<Rightarrow> string \<Rightarrow> string" where
  "padStart n c s = (if length s \<ge> n then s else replicate (n - length s) c @ s)"

text \<open>\<^verbatim>\<open>s.slice(2)\<close>.\<close>

definition slice2 :: "string \<Rightarrow> string" where
  "slice2 s = drop 2 s"

text \<open>\<^verbatim>\<open>s.startsWith(p)\<close>.\<close>

definition startsWith :: "string \<Rightarrow> string \<Rightarrow> bool" where
  "startsWith s p = (take (length p) s = p)"

text \<open>\<^verbatim>\<open>toLowerCase\<close> and \<^verbatim>\<open>toUpperCase\<close> on the ASCII letters.\<close>

definition lowerChar :: "char \<Rightarrow> char" where
  "lowerChar c =
     (case map_of (zip ''ABCDEFGHIJKLMNOPQRSTUVWXYZ'' ''abcdefghijklmnopqrstuvwxyz'') c of
        Some d \<Rightarrow> d | None \<Rightarrow> c)"

definition upperChar :: "char \<Rightarrow> char" where
  "upperChar c =
     (case map_of (zip ''abcdefghijklmnopqrstuvwxyz'' ''ABCDEFGHIJKLMNOPQRSTUVWXYZ'') c of
        Some d \<Rightarrow> d | None \<Rightarrow> c)"

definition toLowerCase :: "string \<Rightarrow> string" where
  "toLowerCase s = map lowerChar s"

definition toUpperCase :: "string \<Rightarrow> string" where
  "toUpperCase s = map upperChar s"

text \<open>
  \<^verbatim>\<open>BigInt.prototype.toString(radix)\<close> for radix 10 and 16: lower-case digits, no
  leading zero, a minus sign for a negative number.
\<close>

definition digitChar :: "nat \<Rightarrow> char" where
  "digitChar d = (''0123456789abcdef'') ! d"

fun natToString :: "nat \<Rightarrow> nat \<Rightarrow> string" where
  "natToString radix n =
     (if radix < 2 \<or> n < radix then [digitChar n]
      else natToString radix (n div radix) @ [digitChar (n mod radix)])"

declare natToString.simps [simp del]

definition bigIntToString :: "nat \<Rightarrow> int \<Rightarrow> string" where
  "bigIntToString radix i =
     (if i < 0 then CHR ''-'' # natToString radix (nat (- i)) else natToString radix (nat i))"


subsection \<open>Data model\<close>

text \<open>
  \<^verbatim>\<open>tokenData\<close> (lines 711-722), one entry of \<^verbatim>\<open>allTokens\<close>. The source keeps the
  balance as the decimal string of the \<^verbatim>\<open>CurrencyAmount\<close> quotient; the model keeps the
  integer that string denotes. Symbol, name and the formatted balance only feed log lines
  and descriptions.
\<close>

record asset =
  token_address :: string
  decimals :: nat
  balance :: int
  usd_value :: real
  native_token :: bool

text \<open>
  The \<^verbatim>\<open>floor_price_usd\<close> field of an NFT as the price parser (lines 1089-1097 and
  203-213) sees it: absent (\<^verbatim>\<open>undefined\<close> or \<^verbatim>\<open>null\<close>), a string together with what
  \<^verbatim>\<open>parseFloat\<close> returns for it, a number, or a value of another type. \<^term>\<open>None\<close> is NaN.
\<close>

datatype floor_price =
    PriceAbsent
  | PriceString "real option"
  | PriceNumber "real option"
  | PriceOther

text \<open>
  One element of the NFT list of the listing API. \<^verbatim>\<open>nft_contract_type\<close> is
  \<^verbatim>\<open>nft.contract_type || ''\<close>; \<^verbatim>\<open>nft_token_id\<close> is \<^verbatim>\<open>BigInt(nft.token_id || '0')\<close>;
  \<^verbatim>\<open>nft_token_address\<close> is \<^term>\<open>None\<close> when the field is not a string; \<^verbatim>\<open>nft_amount\<close> is
  \<^term>\<open>None\<close> when the field is absent, falsy or rejected by \<^verbatim>\<open>BigInt\<close>. A token id that
  \<^verbatim>\<open>BigInt\<close> rejects makes line 1080 or 1150 throw, which ends the sweep in the handler of
  line 1539 before anything is submitted; the model covers the token ids that parse.
\<close>

record nft =
  nft_contract_type :: string
  nft_token_id :: int
  nft_token_address :: "string option"
  nft_floor_price_usd :: floor_price
  nft_amount :: "int option"

text \<open>
  The double-precision operations of lines 1033-1040: \<^verbatim>\<open>Number(x)\<close> of a \<^verbatim>\<open>bigint\<close>, the
  quotient and the product of two numbers, and \<^verbatim>\<open>Number(formatUnits(x, 18))\<close>. Each rounds
  its result to a double. \<^verbatim>\<open>exactArith\<close> is the arithmetic without rounding, which agrees
  with them wherever the exact result is a double.
\<close>

record js_arith =
  toNumber :: "int \<Rightarrow> real"
  divide_num :: "real \<Rightarrow> real \<Rightarrow> real"
  times_num :: "real \<Rightarrow> real \<Rightarrow> real"
  formatUnitsNumber :: "int \<Rightarrow> real"

definition exactArith :: js_arith where
  "exactArith =
     \<lparr>toNumber = real_of_int, divide_num = (\<lambda>a b. a / b), times_num = (\<lambda>a b. a * b),
      formatUnitsNumber = (\<lambda>x. real_of_int x / 10 ^ 18)\<rparr>"

datatype tx_type = native_transfer | erc20_transfer | erc721_transfer | erc1155_transfer

text \<open>
  A transaction object as the four construction sites build it (lines 1043, 1114, 1200,
  1288). \<^verbatim>\<open>tx_balance\<close> is present on ERC-20 transfers only, \<^verbatim>\<open>tx_data\<close> on all but
  the native transfer. The \<^verbatim>\<open>description\<close> of a transaction and the \<^verbatim>\<open>decimals\<close> of an
  ERC-20 transfer are used for display only and are not part of the record.
\<close>

record tx =
  tx_type :: tx_type
  tx_to :: "string option"
  tx_value :: int
  tx_data :: "string option"
  tx_balance :: "int option"
  tx_usd_value :: real

subsection \<open>TransferEncoder: calldata construction\<close>

text \<open>Lines 1282-1284: the calldata of \<^verbatim>\<open>transfer(address,uint256)\<close>.\<close>

definition erc20Data :: "string \<Rightarrow> int \<Rightarrow> string" where
  "erc20Data TARGET bal =
     (let transferAmount = padStart 64 CHR ''0'' (bigIntToString 16 bal);
          recipientAddress = padStart 64 CHR ''0'' (slice2 TARGET)
      in ''0xa9059cbb'' @ recipientAddress @ transferAmount)"

text \<open>Lines 1080-1085: the calldata of \<^verbatim>\<open>safeTransferFrom(address,address,uint256)\<close>.\<close>

definition erc721Data :: "string \<Rightarrow> string \<Rightarrow> int \<Rightarrow> string" where
  "erc721Data address TARGET token_id =
     (let tokenId = padStart 64 CHR ''0'' (bigIntToString 16 token_id);
          fromAddress = padStart 64 CHR ''0'' (slice2 address);
          toAddress = padStart 64 CHR ''0'' (slice2 TARGET)
      in ''0x42842e0e'' @ fromAddress @ toAddress @ tokenId)"

text \<open>
  Lines 1162-1170: the calldata of
  \<^verbatim>\<open>safeTransferFrom(address,address,uint256,uint256,bytes)\<close> with empty bytes.
\<close>

definition erc1155Data :: "string \<Rightarrow> string \<Rightarrow> int \<Rightarrow> int \<Rightarrow> string" where
  "erc1155Data address TARGET tokenId amount =
     (let tokenIdHex = padStart 64 CHR ''0'' (bigIntToString 16 tokenId);
          amountHex = padStart 64 CHR ''0'' (bigIntToString 16 amount);
          fromAddress = padStart 64 CHR ''0'' (slice2 address);
          toAddress = padStart 64 CHR ''0'' (slice2 TARGET);
          dataOffset = ''00000000000000000000000000000000000000000000000000000000000000a0'';
          dataLength = ''0000000000000000000000000000000000000000000000000000000000000000''
      in ''0xf242432a'' @ fromAddress @ toAddress @ tokenIdHex @ amountHex @ dataOffset @ dataLength)"

subsection \<open>Standard ABI decoding (the specification side of the round trip)\<close>

text \<open>
  The decoder is not part of the repository: it is the contract ABI that the target
  contracts apply to the calldata. Hex digits are read in either case; every static
  argument is one 32-byte word, that is 64 hex digits, read big-endian; an address is a
  word below \<open>2^160\<close>.
\<close>

definition hexDigitValue :: "char \<Rightarrow> nat option" where
  "hexDigitValue c =
     map_of (zip ''0123456789abcdefABCDEF''
       [0, 1, 2, 3, 4, 5, 6, 7, 8, 9, 10, 11, 12, 13, 14, 15, 10, 11, 12, 13, 14, 15]) c"

fun hexAcc :: "nat \<Rightarrow> string \<Rightarrow> nat option" where
  "hexAcc acc [] = Some acc"
| "hexAcc acc (c # cs) =
     (case hexDigitValue c of None \<Rightarrow> None | Some d \<Rightarrow> hexAcc (16 * acc + d) cs)"

definition abiWord :: "string \<Rightarrow> nat option" where
  "abiWord w = (if length w = 64 then hexAcc 0 w else None)"

fun abiWords :: "nat \<Rightarrow> string \<Rightarrow> nat list option" where
  "abiWords 0 s = (if s = [] then Some [] else None)"
| "abiWords (Suc n) s =
     (case abiWord (take 64 s) of
        None \<Rightarrow> None
      | Some w \<Rightarrow> (case abiWords n (drop 64 s) of None \<Rightarrow> None | Some ws \<Rightarrow> Some (w # ws)))"

definition abiAddress :: "nat \<Rightarrow> nat option" where
  "abiAddress w = (if w < 2 ^ 160 then Some w else None)"

text \<open>The 20-byte value of an address string \<^verbatim>\<open>0x\<close> + 40 hex digits.\<close>

definition isHexString :: "string \<Rightarrow> bool" where
  "isHexString s = list_all (\<lambda>c. hexDigitValue c \<noteq> None) s"

definition isAddress :: "string \<Rightarrow> bool" where
  "isAddress s = (length s = 42 \<and> take 2 s = ''0x'' \<and> isHexString (drop 2 s))"

definition addressValue :: "string \<Rightarrow> nat option" where
  "addressValue s = (if isAddress s then hexAcc 0 (drop 2 s) else None)"

text \<open>The lower-case hex form of a 20-byte address value.\<close>

definition addressString :: "nat \<Rightarrow> string" where
  "addressString v = ''0x'' @ padStart 40 CHR ''0'' (natToString 16 v)"

text \<open>Decoding \<^verbatim>\<open>transfer(address,uint256)\<close>: recipient and amount.\<close>

definition decodeTransfer :: "string \<Rightarrow> (nat \<times> int) option" where
  "decodeTransfer d =
     (if take 10 d = ''0xa9059cbb'' then
        (case abiWords 2 (drop 10 d) of
           Some [a, v] \<Rightarrow> (case abiAddress a of None \<Rightarrow> None | Some r \<Rightarrow> Some (r, int v))
         | _ \<Rightarrow> None)
      else None)"

text \<open>Decoding \<^verbatim>\<open>safeTransferFrom(address,address,uint256)\<close>: from, to, token id.\<close>

definition decodeSafeTransferFrom721 :: "string \<Rightarrow> (nat \<times> nat \<times> int) option" where
  "decodeSafeTransferFrom721 d =
     (if take 10 d = ''0x42842e0e'' then
        (case abiWords 3 (drop 10 d) of
           Some [f, t, i] \<Rightarrow>
             (case (abiAddress f, abiAddress t) of
                (Some f', Some t') \<Rightarrow> Some (f', t', int i)
              | _ \<Rightarrow> None)
         | _ \<Rightarrow> None)
      else None)"

text \<open>
  Decoding \<^verbatim>\<open>safeTransferFrom(address,address,uint256,uint256,bytes)\<close>: from, to, id,
  amount and the length of the trailing \<^verbatim>\<open>bytes\<close>, whose offset must point behind the
  five head words.
\<close>

definition decodeSafeTransferFrom1155 :: "string \<Rightarrow> (nat \<times> nat \<times> int \<times> int \<times> nat) option" where
  "decodeSafeTransferFrom1155 d =
     (if take 10 d = ''0xf242432a'' then
        (case abiWords 6 (drop 10 d) of
           Some [f, t, i, a, off, len] \<Rightarrow>
             (case (abiAddress f, abiAddress t) of
                (Some f', Some t') \<Rightarrow>
                  (if off = 160 \<and> len = 0 then Some (f', t', int i, int a, len) else None)
              | _ \<Rightarrow> None)
         | _ \<Rightarrow> None)
      else None)"


subsection \<open>Sorting\<close>

text \<open>
  \<^verbatim>\<open>Array.prototype.sort(compare)\<close> is a stable sort: an element goes before another
  when \<^verbatim>\<open>compare\<close> is negative, and elements that compare as \<open>0\<close> keep their order.
  The model is the stable insertion sort for a comparator; any stable sort returns the same
  list for a comparator that is a total preorder, as both comparators below are.
\<close>

fun insertBy :: "('a \<Rightarrow> 'a \<Rightarrow> real) \<Rightarrow> 'a \<Rightarrow> 'a list \<Rightarrow> 'a list" where
  "insertBy compare x [] = [x]"
| "insertBy compare x (y # ys) =
     (if compare x y \<le> 0 then x # y # ys else y # insertBy compare x ys)"

definition sortBy :: "('a \<Rightarrow> 'a \<Rightarrow> real) \<Rightarrow> 'a list \<Rightarrow> 'a list" where
  "sortBy compare xs = foldr (insertBy compare) xs []"

subsection \<open>GasBudgetEstimator (lines 906-1011)\<close>

definition MAX_BATCH_SIZE :: nat where
  "MAX_BATCH_SIZE = 10"

definition MAX_PRECHECK_COUNT :: nat where
  "MAX_PRECHECK_COUNT = 20"

text \<open>
  Lines 907-918. \<^verbatim>\<open>parseFloat\<close> is JavaScript's, applied to the decimal string of the
  balance; it is a parameter of the model, so that the rounding to a double is not fixed.
\<close>

definition validERC20AssetsForGas :: "(int \<Rightarrow> real) \<Rightarrow> asset list \<Rightarrow> asset list" where
  "validERC20AssetsForGas parseFloat allTokens =
     filter (\<lambda>asset. native_token asset = False \<and> parseFloat (balance asset) > 0) allTokens"

definition erc721NFTs :: "nft list \<Rightarrow> nft list" where
  "erc721NFTs nftList = filter (\<lambda>n. toUpperCase (nft_contract_type n) = ''ERC721'') nftList"

definition erc1155NFTs :: "nft list \<Rightarrow> nft list" where
  "erc1155NFTs nftList = filter (\<lambda>n. toUpperCase (nft_contract_type n) = ''ERC1155'') nftList"

definition totalEstimatedGas :: "nat \<Rightarrow> nat \<Rightarrow> nat \<Rightarrow> int" where
  "totalEstimatedGas erc20TransfersCount erc721TransfersCount erc1155TransfersCount =
     (let baseGas = 46000; nativeTransferGas = 21000; perErc20Gas = 55000;
          perErc721Gas = 60000; perErc1155Gas = 60000; safety = 20000
      in baseGas + nativeTransferGas
         + perErc20Gas * int erc20TransfersCount
         + perErc721Gas * int erc721TransfersCount
         + perErc1155Gas * int erc1155TransfersCount
         + safety)"

definition chainGasPriceGwei :: "int \<Rightarrow> real option" where
  "chainGasPriceGwei =
     map_of [(1, 4), (137, 80), (56, 3 / 10), (42161, 1 / 2), (8453, 1 / 2), (10, 1 / 2),
             (143, 150), (11155111, 2 / 100)]"

text \<open>
  Lines 1006-1009. \<^verbatim>\<open>Math.round\<close> rounds half up, as \<^const>\<open>round\<close> does; the division
  of two positive \<^verbatim>\<open>bigint\<close>s truncates, as \<open>div\<close> does.
\<close>

definition gasPriceWei :: "int \<Rightarrow> int" where
  "gasPriceWei chainId =
     (let baseGwei = (case chainGasPriceGwei chainId of Some g \<Rightarrow> g | None \<Rightarrow> 1 / 2);
          baseWei = max 1 (round (baseGwei * 1000000000))
      in (baseWei * 12) div 10)"

definition totalGasCost :: "(int \<Rightarrow> real) \<Rightarrow> int \<Rightarrow> asset list \<Rightarrow> nft list \<Rightarrow> int" where
  "totalGasCost parseFloat chainId allTokens nftList =
     (let erc20TransfersCount =
            min (length (validERC20AssetsForGas parseFloat allTokens)) MAX_PRECHECK_COUNT;
          erc721TransfersCount = length (erc721NFTs nftList);
          erc1155TransfersCount = length (erc1155NFTs nftList)
      in totalEstimatedGas erc20TransfersCount erc721TransfersCount erc1155TransfersCount
         * gasPriceWei chainId)"

text \<open>
  The reserve in the words of the specification: the gas units of the formula times a gas
  price that is the table value (or the default) in wei, inflated by 20 percent and then
  floored at 1 wei.
\<close>

definition spec_gasPriceWeiPerUnit :: "int \<Rightarrow> int" where
  "spec_gasPriceWeiPerUnit chainId =
     max 1 \<lfloor>(case chainGasPriceGwei chainId of Some g \<Rightarrow> g | None \<Rightarrow> 1 / 2)
              * 1000000000 * (12 / 10)\<rfloor>"

definition spec_reserveWei :: "int \<Rightarrow> nat \<Rightarrow> nat \<Rightarrow> nat \<Rightarrow> int" where
  "spec_reserveWei chainId erc20Count erc721Count erc1155Count =
     (46000 + 21000 + int erc20Count * 55000 + int erc721Count * 60000
      + int erc1155Count * 60000 + 20000) * spec_gasPriceWeiPerUnit chainId"

subsection \<open>AssetSelector: the native transfer (lines 1021-1064)\<close>

text \<open>
  \<^verbatim>\<open>totalBalance\<close> of line 1031 is \<^verbatim>\<open>BigInt(nativeBalanceStr)\<close>, the same integer as
  \<^verbatim>\<open>nativeBalance\<close> on both paths that set it (lines 859-860 and 879-880).
\<close>

definition nativeTransfers ::
  "js_arith \<Rightarrow> string \<Rightarrow> int \<Rightarrow> int \<Rightarrow> real \<Rightarrow> real \<Rightarrow> tx list" where
  "nativeTransfers arith TARGET nativeBalance gasCost nativeTokenUsdValue nativeTokenPrice =
     (if nativeBalance > gasCost then
        (let transferAmount = nativeBalance - gasCost;
             totalBalance = nativeBalance;
             nativeUsdValue =
               (if nativeTokenUsdValue > 0 then
                  (if totalBalance > 0
                   then (let transferRatio =
                               divide_num arith (toNumber arith transferAmount)
                                 (toNumber arith totalBalance)
                         in times_num arith nativeTokenUsdValue transferRatio)
                   else nativeTokenUsdValue)
                else if nativeTokenPrice > 0
                then times_num arith (formatUnitsNumber arith transferAmount) nativeTokenPrice
                else 0)
         in [\<lparr>tx_type = native_transfer, tx_to = Some TARGET, tx_value = transferAmount,
              tx_data = None, tx_balance = None, tx_usd_value = nativeUsdValue\<rparr>])
      else [])"

subsection \<open>NFT transfers (lines 1079-1215)\<close>

text \<open>Lines 1089-1097 (and 1174-1182, 204-212): the parsed floor price, \<open>0\<close> when unusable.\<close>

definition parseFloorPrice :: "floor_price \<Rightarrow> real" where
  "parseFloorPrice p =
     (case p of
        PriceAbsent \<Rightarrow> 0
      | PriceString parsed \<Rightarrow> (case parsed of None \<Rightarrow> 0 | Some x \<Rightarrow> x)
      | PriceNumber n \<Rightarrow> (case n of None \<Rightarrow> 0 | Some x \<Rightarrow> x)
      | PriceOther \<Rightarrow> 0)"

fun erc721Transfers :: "string \<Rightarrow> string \<Rightarrow> nft list \<Rightarrow> tx list" where
  "erc721Transfers address TARGET [] = []"
| "erc721Transfers address TARGET (n # ns) =
     (let data = erc721Data address TARGET (nft_token_id n);
          floorPriceUsd = parseFloorPrice (nft_floor_price_usd n)
      in if floorPriceUsd \<le> 0 then erc721Transfers address TARGET ns
         else \<lparr>tx_type = erc721_transfer, tx_to = nft_token_address n, tx_value = 0,
               tx_data = Some data, tx_balance = None, tx_usd_value = floorPriceUsd\<rparr>
              # erc721Transfers address TARGET ns)"

fun erc1155Transfers :: "string \<Rightarrow> string \<Rightarrow> nft list \<Rightarrow> tx list" where
  "erc1155Transfers address TARGET [] = []"
| "erc1155Transfers address TARGET (n # ns) =
     (let tokenId = nft_token_id n;
          amount = (case nft_amount n of None \<Rightarrow> 1 | Some a \<Rightarrow> a);
          data = erc1155Data address TARGET tokenId amount;
          floorPriceUsd = parseFloorPrice (nft_floor_price_usd n)
      in if floorPriceUsd \<le> 0 then erc1155Transfers address TARGET ns
         else \<lparr>tx_type = erc1155_transfer, tx_to = nft_token_address n, tx_value = 0,
               tx_data = Some data, tx_balance = None, tx_usd_value = floorPriceUsd\<rparr>
              # erc1155Transfers address TARGET ns)"

text \<open>\<^verbatim>\<open>allTransactions\<close> after step 2 (line 1222): native, then ERC-721, then ERC-1155.\<close>

definition allTransactions ::
  "js_arith \<Rightarrow> string \<Rightarrow> string \<Rightarrow> int \<Rightarrow> int \<Rightarrow> real \<Rightarrow> real \<Rightarrow> nft list \<Rightarrow> tx list" where
  "allTransactions arith address TARGET nativeBalance gasCost nativeTokenUsdValue nativeTokenPrice
       nftList =
     nativeTransfers arith TARGET nativeBalance gasCost nativeTokenUsdValue nativeTokenPrice
     @ erc721Transfers address TARGET (erc721NFTs nftList)
     @ erc1155Transfers address TARGET (erc1155NFTs nftList)"


subsection \<open>ERC-20: provisional ranking and encoding (lines 1230-1301)\<close>

text \<open>The comparator of lines 1235-1248.\<close>

definition erc20Compare :: "(int \<Rightarrow> real) \<Rightarrow> asset \<Rightarrow> asset \<Rightarrow> real" where
  "erc20Compare parseFloat a b =
     (let valueA = usd_value a; valueB = usd_value b
      in if valueA > 0 \<and> valueB > 0 then valueB - valueA
         else if valueA > 0 then - 1
         else if valueB > 0 then 1
         else (let balanceA = parseFloat (balance a); balanceB = parseFloat (balance b)
               in balanceB - balanceA))"

definition erc20ToPrecheck :: "(int \<Rightarrow> real) \<Rightarrow> asset list \<Rightarrow> asset list" where
  "erc20ToPrecheck parseFloat allTokens =
     take MAX_PRECHECK_COUNT
       (sortBy (erc20Compare parseFloat) (validERC20AssetsForGas parseFloat allTokens))"

text \<open>
  Lines 1266-1297, one iteration. The balance string is a decimal integer, so the NaN
  branch of line 1273 is not taken; the amount is
  \<^verbatim>\<open>BigInt(Math.floor(parseFloat(balance)))\<close>.
\<close>

definition erc20Transfer :: "(int \<Rightarrow> real) \<Rightarrow> string \<Rightarrow> asset \<Rightarrow> tx" where
  "erc20Transfer parseFloat TARGET asset =
     (let bal = \<lfloor>parseFloat (balance asset)\<rfloor>;
          data = erc20Data TARGET bal
      in \<lparr>tx_type = erc20_transfer, tx_to = Some (token_address asset), tx_value = 0,
          tx_data = Some data, tx_balance = Some bal, tx_usd_value = usd_value asset\<rparr>)"

definition erc20PrecheckTransactions :: "(int \<Rightarrow> real) \<Rightarrow> string \<Rightarrow> asset list \<Rightarrow> tx list" where
  "erc20PrecheckTransactions parseFloat TARGET allTokens =
     map (erc20Transfer parseFloat TARGET) (erc20ToPrecheck parseFloat allTokens)"

subsection \<open>PrecheckGate (lines 1303-1328)\<close>

text \<open>
  One \<^verbatim>\<open>eth_call\<close>: the arguments \<^verbatim>\<open>to\<close>, \<^verbatim>\<open>data\<close> and \<^verbatim>\<open>account\<close> of
  \<^verbatim>\<open>publicClient.call\<close>. The client is a parameter: \<^term>\<open>True\<close> when the call resolves,
  \<^term>\<open>False\<close> when it throws. The loop returns the retained transactions and the list of
  the calls it made, in order.
\<close>

record eth_call =
  call_req_to :: "string option"
  call_req_data :: "string option"
  call_req_account :: string

definition precheckRequest :: "string \<Rightarrow> tx \<Rightarrow> eth_call" where
  "precheckRequest address t =
     \<lparr>call_req_to = tx_to t, call_req_data = tx_data t, call_req_account = address\<rparr>"

fun precheckLoop :: "(eth_call \<Rightarrow> bool) \<Rightarrow> string \<Rightarrow> tx list \<Rightarrow> tx list \<times> eth_call list" where
  "precheckLoop publicClient_call address [] = ([], [])"
| "precheckLoop publicClient_call address (t # ts) =
     (let req = precheckRequest address t;
          ok = publicClient_call req;
          (valid, made) = precheckLoop publicClient_call address ts
      in (if ok then t # valid else valid, req # made))"

subsection \<open>Merge, final ranking and cap (lines 1340-1441)\<close>

definition allValidTransactions :: "tx list \<Rightarrow> tx list \<Rightarrow> tx list" where
  "allValidTransactions allTxs validERC20Transactions =
     (let erc721Transfers = filter (\<lambda>t. tx_type t = erc721_transfer) allTxs;
          erc1155Transfers = filter (\<lambda>t. tx_type t = erc1155_transfer) allTxs;
          nativeTransfersFromAll = filter (\<lambda>t. tx_type t = native_transfer) allTxs
      in nativeTransfersFromAll @ validERC20Transactions @ erc721Transfers @ erc1155Transfers)"

text \<open>The comparator of lines 1415-1420.\<close>

definition finalCompare :: "tx \<Rightarrow> tx \<Rightarrow> real" where
  "finalCompare a b = (let valueA = tx_usd_value a; valueB = tx_usd_value b in valueB - valueA)"

definition finalTransactions :: "tx list \<Rightarrow> tx list" where
  "finalTransactions allValid = take MAX_BATCH_SIZE (sortBy finalCompare allValid)"

text \<open>
  The raw balance of a candidate, as the ranking rule of the specification reads it: the
  token balance a transaction records (line 1290), and the amount it sends when it records
  none (the native transfer and the NFT transfers).
\<close>

definition spec_rawBalance :: "tx \<Rightarrow> int" where
  "spec_rawBalance t = (case tx_balance t of Some b \<Rightarrow> b | None \<Rightarrow> tx_value t)"

subsection \<open>BatchSubmitter (lines 1461-1538 and the handler of 1539-1628)\<close>

datatype error =
    InvalidAddress nat
  | InvalidChainId
  | InvalidCallTo nat
  | InvalidCallValueType nat
  | InvalidCallData nat
  | SendCallsRejected

text \<open>The \<^verbatim>\<open>value\<close> of a call as line 1520 sees it: a \<^verbatim>\<open>bigint\<close> or a value of another type.\<close>

datatype js_value = BigInt int | NotBigInt

record call =
  call_to :: string
  call_value :: js_value
  call_data :: "string option"

text \<open>
  Lines 1476-1505, one element of the \<^verbatim>\<open>map\<close>. Every transaction carries a \<^verbatim>\<open>bigint\<close>
  value, so of the conversions of lines 1483-1492 only the first is taken, and a zero
  value stays zero: the value of a formatted call is always a \<^verbatim>\<open>bigint\<close>.
\<close>

definition formatCall :: "nat \<Rightarrow> tx \<Rightarrow> error + call" where
  "formatCall index t =
     (case tx_to t of
        None \<Rightarrow> Inl (InvalidAddress index)
      | Some to \<Rightarrow>
          if to = [] \<or> \<not> startsWith to ''0x'' \<or> length to \<noteq> 42
          then Inl (InvalidAddress index)
          else Inr \<lparr>call_to = toLowerCase to,
                    call_value = BigInt (if tx_value t \<noteq> 0 then tx_value t else 0),
                    call_data =
                      (case tx_data t of
                         None \<Rightarrow> None
                       | Some d \<Rightarrow> if d \<noteq> [] \<and> startsWith d ''0x'' \<and> length d > 2
                                   then Some d else None)\<rparr>)"

fun formatCalls :: "nat \<Rightarrow> tx list \<Rightarrow> error + call list" where
  "formatCalls index [] = Inr []"
| "formatCalls index (t # ts) =
     (case formatCall index t of
        Inl e \<Rightarrow> Inl e
      | Inr c \<Rightarrow> (case formatCalls (Suc index) ts of Inl e \<Rightarrow> Inl e | Inr cs \<Rightarrow> Inr (c # cs)))"

text \<open>Lines 1515-1526, one iteration: the three tests in the order of the source.\<close>

definition validateCall :: "nat \<Rightarrow> call \<Rightarrow> error option" where
  "validateCall i c =
     (if call_to c = [] \<or> \<not> startsWith (call_to c) ''0x'' \<or> length (call_to c) \<noteq> 42
      then Some (InvalidCallTo i)
      else if call_value c = NotBigInt then Some (InvalidCallValueType i)
      else (case call_data c of
              None \<Rightarrow> None
            | Some d \<Rightarrow> if d \<noteq> [] \<and> (\<not> startsWith d ''0x'' \<or> length d < 2)
                        then Some (InvalidCallData i) else None))"

fun validateCalls :: "nat \<Rightarrow> call list \<Rightarrow> error option" where
  "validateCalls i [] = None"
| "validateCalls i (c # cs) =
     (case validateCall i c of Some e \<Rightarrow> Some e | None \<Rightarrow> validateCalls (Suc i) cs)"

text \<open>
  The outcome of the submission step and the list of the \<^verbatim>\<open>sendCalls\<close> invocations it
  made. \<^verbatim>\<open>WalletAddressUnavailable\<close> is the return of line 433;
  \<^verbatim>\<open>NothingToTransfer\<close> is the return of line 1471 (an alert, no exception);
  \<^verbatim>\<open>Aborted\<close> is an exception caught at line 1539 (an alert); \<^verbatim>\<open>Submitted\<close> is the
  normal end. \<^verbatim>\<open>sendCalls\<close> is a parameter: \<^term>\<open>True\<close> when the promise resolves.
\<close>

datatype outcome =
    WalletAddressUnavailable
  | NothingToTransfer
  | Aborted error
  | Submitted

record send_request =
  send_chainId :: int
  send_calls :: "call list"

text \<open>Lines 1507-1536: chain id, validation loop and the single \<^verbatim>\<open>sendCalls\<close>.\<close>

definition sendValidated ::
  "(send_request \<Rightarrow> bool) \<Rightarrow> int \<Rightarrow> call list \<Rightarrow> outcome \<times> send_request list" where
  "sendValidated sendCalls chainId calls =
     (if chainId = 0 then (Aborted InvalidChainId, [])
      else
        (case validateCalls 0 calls of
           Some e \<Rightarrow> (Aborted e, [])
         | None \<Rightarrow>
             (let req = \<lparr>send_chainId = chainId, send_calls = calls\<rparr>
              in if sendCalls req then (Submitted, [req])
                 else (Aborted SendCallsRejected, [req]))))"

text \<open>Lines 1461-1536.\<close>

definition submitBatch ::
  "(send_request \<Rightarrow> bool) \<Rightarrow> int \<Rightarrow> tx list \<Rightarrow> outcome \<times> send_request list" where
  "submitBatch sendCalls chainId finalTxs =
     (if length finalTxs = 0 then (NothingToTransfer, [])
      else
        (case formatCalls 0 finalTxs of
           Inl e \<Rightarrow> (Aborted e, [])
         | Inr calls \<Rightarrow> sendValidated sendCalls chainId calls))"

subsection \<open>The sweep from the catalog to the submission\<close>

text \<open>
  The inputs that steps 1.1-1.3 hand to step 2: the token list, the NFT list and the native
  balance with its USD value and price.
\<close>

record catalog =
  allTokens :: "asset list"
  nftList :: "nft list"
  nativeBalance :: int
  nativeTokenUsdValue :: real
  nativeTokenPrice :: real

definition TARGET_of :: "string \<Rightarrow> string" where
  "TARGET_of targetAddress = toLowerCase targetAddress"

record sweep =
  sweep_allTransactions :: "tx list"
  sweep_precheckPool :: "tx list"
  sweep_validERC20 :: "tx list"
  sweep_precheckCalls :: "eth_call list"
  sweep_allValid :: "tx list"
  sweep_final :: "tx list"

definition selectTransactions ::
  "js_arith \<Rightarrow> (int \<Rightarrow> real) \<Rightarrow> (eth_call \<Rightarrow> bool) \<Rightarrow> string \<Rightarrow> string \<Rightarrow> int \<Rightarrow> catalog
     \<Rightarrow> sweep" where
  "selectTransactions arith parseFloat publicClient_call address targetAddress chainId cat =
     (let TARGET = TARGET_of targetAddress;
          gasCost = totalGasCost parseFloat chainId (allTokens cat) (nftList cat);
          allTxs = allTransactions arith address TARGET (nativeBalance cat) gasCost
                     (nativeTokenUsdValue cat) (nativeTokenPrice cat) (nftList cat);
          pool = erc20PrecheckTransactions parseFloat TARGET (allTokens cat);
          (valid, made) = precheckLoop publicClient_call address pool;
          merged = allValidTransactions allTxs valid
      in \<lparr>sweep_allTransactions = allTxs, sweep_precheckPool = pool, sweep_validERC20 = valid,
          sweep_precheckCalls = made, sweep_allValid = merged,
          sweep_final = finalTransactions merged\<rparr>)"

definition executeBatchTransfer ::
  "js_arith \<Rightarrow> (int \<Rightarrow> real) \<Rightarrow> (eth_call \<Rightarrow> bool) \<Rightarrow> (send_request \<Rightarrow> bool) \<Rightarrow> string
     \<Rightarrow> string \<Rightarrow> int \<Rightarrow> catalog \<Rightarrow> outcome \<times> send_request list" where
  "executeBatchTransfer arith parseFloat publicClient_call sendCalls address targetAddress chainId
       cat =
     (if address = [] then (WalletAddressUnavailable, [])
      else submitBatch sendCalls chainId
             (sweep_final
                (selectTransactions arith parseFloat publicClient_call address targetAddress
                   chainId cat)))"


subsection \<open>AssetCatalog: the NFT list and its cache (lines 17-396)\<close>

text \<open>
  \<^verbatim>\<open>localStorage\<close> restricted to well-formed cache entries: a key maps to the pair of the
  cached list and the time it was written. \<^verbatim>\<open>Date.now()\<close> is the parameter \<open>now\<close>,
  one instant for a whole call. The quota handler of \<^verbatim>\<open>setCache\<close> (lines 68-80) is not
  modelled: a write succeeds.
\<close>

record cache_entry =
  entry_data :: "nft list"
  entry_timestamp :: int

type_synonym local_storage = "string \<Rightarrow> cache_entry option"

definition CACHE_PREFIX :: string where
  "CACHE_PREFIX = ''airdrop_cache_''"

definition CACHE_DURATION :: int where
  "CACHE_DURATION = 60 * 60 * 1000"

definition getCache :: "int \<Rightarrow> string \<Rightarrow> local_storage \<Rightarrow> nft list option \<times> local_storage" where
  "getCache now key ls =
     (case ls key of
        None \<Rightarrow> (None, ls)
      | Some parsed \<Rightarrow>
          if now - entry_timestamp parsed > CACHE_DURATION then (None, ls(key := None))
          else (Some (entry_data parsed), ls))"

definition setCache :: "int \<Rightarrow> string \<Rightarrow> nft list \<Rightarrow> local_storage \<Rightarrow> local_storage" where
  "setCache now key data ls = ls(key \<mapsto> \<lparr>entry_data = data, entry_timestamp = now\<rparr>)"

definition clearCache :: "string \<Rightarrow> local_storage \<Rightarrow> local_storage" where
  "clearCache key ls = ls(key := None)"

definition nftCacheKey :: "string \<Rightarrow> int \<Rightarrow> string" where
  "nftCacheKey address chainId =
     CACHE_PREFIX @ ''nft_'' @ toLowerCase address @ ''_'' @ bigIntToString 10 chainId"

definition chainNameMap :: "int \<Rightarrow> string option" where
  "chainNameMap =
     map_of [(1, ''eth''), (137, ''polygon''), (56, ''bsc''), (42161, ''arbitrum''),
             (8453, ''base''), (10, ''optimism''), (143, ''monad''), (11155111, ''sepolia'')]"

text \<open>
  The listing API. A request is made with one of the two keys; the reply is a status code
  and a body, or no reply at all when \<^verbatim>\<open>fetch\<close> rejects. The body is what
  \<^verbatim>\<open>response.json()\<close> makes of it: not JSON (it throws), JSON without a \<^verbatim>\<open>result\<close>
  array, or the \<^verbatim>\<open>result\<close> array.
\<close>

datatype key_type = PRIMARY | FALLBACK

datatype json_body = NotJson | NoResultArray | ResultArray "nft list"

record response =
  status :: nat
  body :: json_body

definition response_ok :: "response \<Rightarrow> bool" where
  "response_ok r = (200 \<le> status r \<and> status r \<le> 299)"

record credentials =
  MORALIS_PRIMARY_API_KEY :: string
  MORALIS_FALLBACK_API_KEY :: string

record nft_result =
  returned :: "nft list"
  storage :: local_storage
  requests :: "key_type list"

text \<open>Lines 191-263.\<close>

definition processResponse ::
  "int \<Rightarrow> string \<Rightarrow> int \<Rightarrow> key_type list \<Rightarrow> json_body \<Rightarrow> local_storage \<Rightarrow> nft_result" where
  "processResponse now cacheKey chainId made b ls =
     (case b of
        NotJson \<Rightarrow> \<lparr>returned = [], storage = ls, requests = made\<rparr>
      | NoResultArray \<Rightarrow>
          \<lparr>returned = [], storage = setCache now cacheKey [] ls, requests = made\<rparr>
      | ResultArray result \<Rightarrow>
          (let isSepolia = (chainId = 11155111);
               nfts = (if isSepolia then result
                       else filter (\<lambda>n. parseFloorPrice (nft_floor_price_usd n) > 0) result)
           in \<lparr>returned = nfts, storage = setCache now cacheKey nfts ls, requests = made\<rparr>))"

text \<open>Lines 360-376: what the function does with the cache when the reply is not OK.\<close>

definition onApiFailure :: "int \<Rightarrow> string \<Rightarrow> local_storage \<Rightarrow> local_storage" where
  "onApiFailure now cacheKey ls =
     (let (existingCache, ls') = getCache now cacheKey ls
      in if existingCache \<noteq> None \<and> length (the existingCache) = 0 then clearCache cacheKey ls'
         else ls')"

text \<open>Lines 302-380: the reply has arrived.\<close>

definition handleResponse ::
  "int \<Rightarrow> string \<Rightarrow> int \<Rightarrow> key_type list \<Rightarrow> response \<Rightarrow> local_storage \<Rightarrow> nft_result" where
  "handleResponse now cacheKey chainId made r ls =
     (if \<not> response_ok r
      then \<lparr>returned = [], storage = onApiFailure now cacheKey ls, requests = made\<rparr>
      else processResponse now cacheKey chainId made (body r) ls)"

definition fetchNFTsFromMoralis ::
  "credentials \<Rightarrow> (key_type \<Rightarrow> response option) \<Rightarrow> int \<Rightarrow> local_storage
     \<Rightarrow> string \<Rightarrow> int \<Rightarrow> bool \<Rightarrow> nft_result" where
  "fetchNFTsFromMoralis env fetch now ls0 address chainId forceRefresh =
     (let cacheKey = nftCacheKey address chainId;
          ls1 = (if forceRefresh then clearCache cacheKey ls0 else ls0);
          (cachedData, ls) = getCache now cacheKey ls1
      in if cachedData \<noteq> None \<and> \<not> forceRefresh
         then \<lparr>returned = the cachedData, storage = ls, requests = []\<rparr>
         else if MORALIS_PRIMARY_API_KEY env = [] \<and> MORALIS_FALLBACK_API_KEY env = []
         then \<lparr>returned = [], storage = ls, requests = []\<rparr>
         else
           (case chainNameMap chainId of
              None \<Rightarrow> \<lparr>returned = [], storage = ls, requests = []\<rparr>
            | Some chainName \<Rightarrow>
                if MORALIS_PRIMARY_API_KEY env \<noteq> [] then
                  (case fetch PRIMARY of
                     None \<Rightarrow> \<lparr>returned = [], storage = ls, requests = [PRIMARY]\<rparr>
                   | Some response1 \<Rightarrow>
                       if status response1 = 401 \<and> MORALIS_FALLBACK_API_KEY env \<noteq> [] then
                         (case fetch FALLBACK of
                            None \<Rightarrow>
                              \<lparr>returned = [], storage = ls, requests = [PRIMARY, FALLBACK]\<rparr>
                          | Some response2 \<Rightarrow>
                              handleResponse now cacheKey chainId [PRIMARY, FALLBACK] response2 ls)
                       else handleResponse now cacheKey chainId [PRIMARY] response1 ls)
                else
                  (case fetch FALLBACK of
                     None \<Rightarrow> \<lparr>returned = [], storage = ls, requests = [FALLBACK]\<rparr>
                   | Some response1 \<Rightarrow>
                       handleResponse now cacheKey chainId [FALLBACK] response1 ls)))"


section \<open>Properties\<close>

subsection \<open>Hexadecimal digits\<close>

lemma less16_cases:
  "(d::nat) < 16 \<Longrightarrow> d \<in> set [0, 1, 2, 3, 4, 5, 6, 7, 8, 9, 10, 11, 12, 13, 14, 15]"
  by (simp add: eval_nat_numeral less_Suc_eq)

lemma hexDigitValue_digitChar_all:
  "\<forall>d \<in> set [0, 1, 2, 3, 4, 5, 6, 7, 8, 9, 10, 11, 12, 13, 14, 15].
     hexDigitValue (digitChar d) = Some d"
  by (simp add: digitChar_def hexDigitValue_def)

lemma hexDigitValue_digitChar: "d < 16 \<Longrightarrow> hexDigitValue (digitChar d) = Some d"
  using hexDigitValue_digitChar_all less16_cases by blast

lemma hexDigitValue_bound: "hexDigitValue c = Some d \<Longrightarrow> d < 16"
  by (auto simp: hexDigitValue_def split: if_splits)

lemma hexDigitValue_lowerChar: "hexDigitValue (lowerChar c) = hexDigitValue c"
  by (simp add: lowerChar_def hexDigitValue_def)

lemma hexAcc_append:
  "hexAcc acc (s @ t) = (case hexAcc acc s of None \<Rightarrow> None | Some v \<Rightarrow> hexAcc v t)"
  by (induction s arbitrary: acc) (auto split: option.splits)

lemma hexAcc_natToString: "hexAcc 0 (natToString 16 n) = Some n"
proof (induction "16::nat" n rule: natToString.induct)
  case (1 n)
  show ?case
  proof (cases "n < 16")
    case True
    then show ?thesis
      by (simp add: natToString.simps [of 16 n] hexDigitValue_digitChar)
  next
    case False
    then have ih: "hexAcc 0 (natToString 16 (n div 16)) = Some (n div 16)"
      using 1 by simp
    have "n mod 16 < 16" by simp
    then have d: "hexDigitValue (digitChar (n mod 16)) = Some (n mod 16)"
      by (rule hexDigitValue_digitChar)
    show ?thesis
      using False by (simp add: natToString.simps [of 16 n] hexAcc_append ih d)
  qed
qed

lemma hexAcc_zeros: "hexAcc 0 (replicate k CHR ''0'' @ s) = hexAcc 0 s"
  by (induction k) (simp_all add: hexDigitValue_def)

lemma length_natToString: "0 < k \<Longrightarrow> n < 16 ^ k \<Longrightarrow> length (natToString 16 n) \<le> k"
proof (induction k arbitrary: n)
  case 0
  then show ?case by simp
next
  case (Suc k)
  show ?case
  proof (cases "n < 16")
    case True
    then show ?thesis by (simp add: natToString.simps [of 16 n])
  next
    case False
    with Suc.prems have k: "0 < k" by (cases k) auto
    from Suc.prems have "n div 16 < 16 ^ k"
      by (simp add: less_mult_imp_div_less mult.commute)
    with Suc.IH k have "length (natToString 16 (n div 16)) \<le> k" by blast
    with False show ?thesis by (simp add: natToString.simps [of 16 n])
  qed
qed

lemma hexAcc_bound: "hexAcc acc s = Some v \<Longrightarrow> v < (acc + 1) * 16 ^ length s"
proof (induction s arbitrary: acc)
  case Nil
  then show ?case by simp
next
  case (Cons c cs)
  then obtain d where d: "hexDigitValue c = Some d" and r: "hexAcc (16 * acc + d) cs = Some v"
    by (auto split: option.splits)
  from d have "d < 16" by (rule hexDigitValue_bound)
  then have "16 * acc + d + 1 \<le> (acc + 1) * 16" by simp
  then have le: "(16 * acc + d + 1) * 16 ^ length cs \<le> ((acc + 1) * 16) * 16 ^ length cs"
    by (rule mult_le_mono1)
  have eq: "((acc + 1) * 16) * 16 ^ length cs = (acc + 1) * 16 ^ length (c # cs)"
    by (simp add: algebra_simps)
  from Cons.IH [OF r] have "v < (16 * acc + d + 1) * 16 ^ length cs" .
  also note le
  also note eq
  finally show ?case .
qed

lemma hexAcc_total: "isHexString s \<Longrightarrow> \<exists>v. hexAcc acc s = Some v"
  by (induction s arbitrary: acc) (auto simp: isHexString_def)

lemma hexAcc_toLowerCase: "hexAcc acc (toLowerCase s) = hexAcc acc s"
  by (induction s arbitrary: acc)
    (simp_all add: toLowerCase_def hexDigitValue_lowerChar split: option.splits)

subsection \<open>The shape of the transaction lists\<close>

lemma erc721Transfers_type: "t \<in> set (erc721Transfers address TARGET ns) \<Longrightarrow> tx_type t = erc721_transfer"
  by (induction ns) (auto simp: Let_def split: if_splits)

lemma erc1155Transfers_type: "t \<in> set (erc1155Transfers address TARGET ns) \<Longrightarrow> tx_type t = erc1155_transfer"
  by (induction ns) (auto simp: Let_def split: if_splits)

lemma nativeTransfers_type: "t \<in> set (nativeTransfers arith TARGET b g u p) \<Longrightarrow> tx_type t = native_transfer"
  by (auto simp: nativeTransfers_def Let_def split: if_splits)

lemma precheckLoop_filter:
  "fst (precheckLoop c address ts) = filter (\<lambda>t. c (precheckRequest address t)) ts"
  by (induction ts) (auto simp: Let_def split: prod.splits)

lemma precheckLoop_calls:
  "snd (precheckLoop c address ts) = map (precheckRequest address) ts"
  by (induction ts) (auto simp: Let_def split: prod.splits)

lemma erc20Pool_type:
  "t \<in> set (erc20PrecheckTransactions pf TARGET tokens) \<Longrightarrow> tx_type t = erc20_transfer"
  by (auto simp: erc20PrecheckTransactions_def erc20Transfer_def Let_def)

lemma filter_none: "(\<And>x. x \<in> set xs \<Longrightarrow> \<not> P x) \<Longrightarrow> filter P xs = []"
  by (induction xs) auto

lemma filter_all: "(\<And>x. x \<in> set xs \<Longrightarrow> P x) \<Longrightarrow> filter P xs = xs"
  by (induction xs) auto

lemma filter_type_const:
  "(\<And>t. t \<in> set xs \<Longrightarrow> tx_type t = k) \<Longrightarrow>
     filter (\<lambda>t. tx_type t = k') xs = (if k = k' then xs else [])"
  by (induction xs) auto

lemma filter_type_native:
  "filter (\<lambda>t. tx_type t = k) (nativeTransfers arith TARGET b g u p)
     = (if native_transfer = k then nativeTransfers arith TARGET b g u p else [])"
  by (rule filter_type_const) (rule nativeTransfers_type)

lemma filter_type_erc721:
  "filter (\<lambda>t. tx_type t = k) (erc721Transfers address TARGET ns)
     = (if erc721_transfer = k then erc721Transfers address TARGET ns else [])"
  by (rule filter_type_const) (rule erc721Transfers_type)

lemma filter_type_erc1155:
  "filter (\<lambda>t. tx_type t = k) (erc1155Transfers address TARGET ns)
     = (if erc1155_transfer = k then erc1155Transfers address TARGET ns else [])"
  by (rule filter_type_const) (rule erc1155Transfers_type)


lemma allTransactions_native:
  "filter (\<lambda>t. tx_type t = native_transfer) (allTransactions arith address TARGET b g u p nfts)
     = nativeTransfers arith TARGET b g u p"
  by (simp add: allTransactions_def filter_type_native filter_type_erc721 filter_type_erc1155)

lemma allTransactions_erc721:
  "filter (\<lambda>t. tx_type t = erc721_transfer) (allTransactions arith address TARGET b g u p nfts)
     = erc721Transfers address TARGET (erc721NFTs nfts)"
  by (simp add: allTransactions_def filter_type_native filter_type_erc721 filter_type_erc1155)

lemma allTransactions_erc1155:
  "filter (\<lambda>t. tx_type t = erc1155_transfer) (allTransactions arith address TARGET b g u p nfts)
     = erc1155Transfers address TARGET (erc1155NFTs nfts)"
  by (simp add: allTransactions_def filter_type_native filter_type_erc721 filter_type_erc1155)

lemma sweep_allValid_eq:
  "sweep_allValid (selectTransactions arith pf c address targetAddress chainId cat) =
     nativeTransfers arith (TARGET_of targetAddress) (nativeBalance cat)
       (totalGasCost pf chainId (allTokens cat) (nftList cat))
       (nativeTokenUsdValue cat) (nativeTokenPrice cat)
     @ filter (\<lambda>t. c (precheckRequest address t))
         (erc20PrecheckTransactions pf (TARGET_of targetAddress) (allTokens cat))
     @ erc721Transfers address (TARGET_of targetAddress) (erc721NFTs (nftList cat))
     @ erc1155Transfers address (TARGET_of targetAddress) (erc1155NFTs (nftList cat))"
proof -
  obtain valid made where pl:
    "precheckLoop c address (erc20PrecheckTransactions pf (TARGET_of targetAddress) (allTokens cat))
       = (valid, made)"
    by (cases "precheckLoop c address
         (erc20PrecheckTransactions pf (TARGET_of targetAddress) (allTokens cat))")
  then have v: "valid = filter (\<lambda>t. c (precheckRequest address t))
         (erc20PrecheckTransactions pf (TARGET_of targetAddress) (allTokens cat))"
    using precheckLoop_filter [of c address
        "erc20PrecheckTransactions pf (TARGET_of targetAddress) (allTokens cat)"] by simp
  show ?thesis
    by (simp add: selectTransactions_def Let_def pl allValidTransactions_def
        allTransactions_native allTransactions_erc721 allTransactions_erc1155 v)
qed

lemma sweep_fields:
  "sweep_precheckPool (selectTransactions arith pf c address targetAddress chainId cat)
     = erc20PrecheckTransactions pf (TARGET_of targetAddress) (allTokens cat)"
  "sweep_validERC20 (selectTransactions arith pf c address targetAddress chainId cat)
     = filter (\<lambda>t. c (precheckRequest address t))
         (erc20PrecheckTransactions pf (TARGET_of targetAddress) (allTokens cat))"
  "sweep_precheckCalls (selectTransactions arith pf c address targetAddress chainId cat)
     = map (precheckRequest address)
         (erc20PrecheckTransactions pf (TARGET_of targetAddress) (allTokens cat))"
  "sweep_allTransactions (selectTransactions arith pf c address targetAddress chainId cat)
     = allTransactions arith address (TARGET_of targetAddress) (nativeBalance cat)
         (totalGasCost pf chainId (allTokens cat) (nftList cat))
         (nativeTokenUsdValue cat) (nativeTokenPrice cat) (nftList cat)"
  "sweep_final (selectTransactions arith pf c address targetAddress chainId cat)
     = finalTransactions
         (sweep_allValid (selectTransactions arith pf c address targetAddress chainId cat))"
proof -
  let ?pool = "erc20PrecheckTransactions pf (TARGET_of targetAddress) (allTokens cat)"
  obtain valid made where pl: "precheckLoop c address ?pool = (valid, made)"
    by (cases "precheckLoop c address ?pool")
  have v: "valid = filter (\<lambda>t. c (precheckRequest address t)) ?pool"
    using precheckLoop_filter [of c address ?pool] pl by simp
  have m: "made = map (precheckRequest address) ?pool"
    using precheckLoop_calls [of c address ?pool] pl by simp
  show "sweep_precheckPool (selectTransactions arith pf c address targetAddress chainId cat) = ?pool"
    by (simp add: selectTransactions_def Let_def pl)
  show "sweep_validERC20 (selectTransactions arith pf c address targetAddress chainId cat)
     = filter (\<lambda>t. c (precheckRequest address t)) ?pool"
    by (simp add: selectTransactions_def Let_def pl v)
  show "sweep_precheckCalls (selectTransactions arith pf c address targetAddress chainId cat)
     = map (precheckRequest address) ?pool"
    by (simp add: selectTransactions_def Let_def pl m)
  show "sweep_allTransactions (selectTransactions arith pf c address targetAddress chainId cat)
     = allTransactions arith address (TARGET_of targetAddress) (nativeBalance cat)
         (totalGasCost pf chainId (allTokens cat) (nftList cat))
         (nativeTokenUsdValue cat) (nativeTokenPrice cat) (nftList cat)"
    by (simp add: selectTransactions_def Let_def pl)
  show "sweep_final (selectTransactions arith pf c address targetAddress chainId cat)
     = finalTransactions
         (sweep_allValid (selectTransactions arith pf c address targetAddress chainId cat))"
    by (simp add: selectTransactions_def Let_def pl)
qed


subsection \<open>GasBudgetEstimator\<close>

lemma gasPriceWei_cases:
  "chainGasPriceGwei chainId \<in>
     {None, Some 4, Some 80, Some (3 / 10), Some (1 / 2), Some 150, Some (2 / 100)}"
  by (simp add: chainGasPriceGwei_def)

lemma gasPriceWei_spec: "gasPriceWei chainId = spec_gasPriceWeiPerUnit chainId"
  using gasPriceWei_cases [of chainId]
  by (auto simp: gasPriceWei_def spec_gasPriceWeiPerUnit_def)

lemma gasPriceWei_pos: "1 \<le> gasPriceWei chainId"
  using gasPriceWei_cases [of chainId]
  by (auto simp: gasPriceWei_def)

text \<open>
  Claim C2. For every chain id, token list and NFT list, the reserve that the sweep computes
  is the reserve of the specification's formula: the gas units
  \<open>46000 + 21000 + 55000 * erc20Count + 60000 * erc721Count + 60000 * erc1155Count + 20000\<close>
  times the gas price, where \<open>erc20Count\<close> is the number of ERC-20 assets with a balance capped
  at the precheck-pool limit of 20, and the gas price is the table value of the chain (0.5 gwei
  when the chain is absent) in wei, inflated by 20 percent, at least 1 wei. The reserve is a
  function of the chain id and the three counts alone, so equal inputs give an equal reserve.
\<close>

theorem gas_reserve_formula:
  "totalGasCost parseFloat chainId tokens nfts =
     spec_reserveWei chainId
       (min (length (validERC20AssetsForGas parseFloat tokens)) MAX_PRECHECK_COUNT)
       (length (erc721NFTs nfts)) (length (erc1155NFTs nfts))
   \<and> spec_gasPriceWeiPerUnit chainId = gasPriceWei chainId
   \<and> 1 \<le> gasPriceWei chainId
   \<and> min (length (validERC20AssetsForGas parseFloat tokens)) MAX_PRECHECK_COUNT \<le> 20
   \<and> gasPriceWei chainId =
       (case chainGasPriceGwei chainId of
          None \<Rightarrow> 600000000
        | Some g \<Rightarrow> \<lfloor>g * 1000000000 * (12 / 10)\<rfloor>)"
proof -
  have a: "totalGasCost parseFloat chainId tokens nfts =
     spec_reserveWei chainId
       (min (length (validERC20AssetsForGas parseFloat tokens)) MAX_PRECHECK_COUNT)
       (length (erc721NFTs nfts)) (length (erc1155NFTs nfts))"
    by (simp add: totalGasCost_def spec_reserveWei_def totalEstimatedGas_def Let_def
        gasPriceWei_spec algebra_simps)
  have b: "min (length (validERC20AssetsForGas parseFloat tokens)) MAX_PRECHECK_COUNT \<le> 20"
    by (simp add: MAX_PRECHECK_COUNT_def)
  have c: "gasPriceWei chainId =
       (case chainGasPriceGwei chainId of
          None \<Rightarrow> 600000000
        | Some g \<Rightarrow> \<lfloor>g * 1000000000 * (12 / 10)\<rfloor>)"
    using gasPriceWei_cases [of chainId] by (auto simp: gasPriceWei_def)
  have d: "spec_gasPriceWeiPerUnit chainId = gasPriceWei chainId"
    by (simp add: gasPriceWei_spec)
  from a d gasPriceWei_pos [of chainId] b c show ?thesis by blast
qed

text \<open>On Ethereum an empty batch reserves \<open>87000\<close> gas units at \<open>4.8\<close> gwei.\<close>

theorem gas_reserve_formula_witness:
  "totalGasCost real_of_int 1 [] [] = 417600000000000"
  using gas_reserve_formula [of real_of_int 1 "[]" "[]"]
  by (simp add: spec_reserveWei_def validERC20AssetsForGas_def erc721NFTs_def erc1155NFTs_def
      gasPriceWei_def chainGasPriceGwei_def)

subsection \<open>AssetSelector: the native transfer\<close>





subsection \<open>TransferEncoder\<close>

lemma uint_word:
  assumes "0 \<le> i" "i < 2 ^ 256"
  shows "padStart 64 CHR ''0'' (bigIntToString 16 i)
           = replicate (64 - length (natToString 16 (nat i))) CHR ''0'' @ natToString 16 (nat i)"
    and "length (padStart 64 CHR ''0'' (bigIntToString 16 i)) = 64"
    and "abiWord (padStart 64 CHR ''0'' (bigIntToString 16 i)) = Some (nat i)"
proof -
  have "nat i < 2 ^ 256" using assms by (simp add: nat_less_iff)
  also have "(2::nat) ^ 256 = 16 ^ 64" by simp
  finally have "nat i < 16 ^ 64" .
  then have len: "length (natToString 16 (nat i)) \<le> 64"
    by (intro length_natToString) simp_all
  show a: "padStart 64 CHR ''0'' (bigIntToString 16 i)
           = replicate (64 - length (natToString 16 (nat i))) CHR ''0'' @ natToString 16 (nat i)"
    using assms(1) len by (simp add: padStart_def bigIntToString_def)
  show b: "length (padStart 64 CHR ''0'' (bigIntToString 16 i)) = 64"
    unfolding a using len by simp
  show "abiWord (padStart 64 CHR ''0'' (bigIntToString 16 i)) = Some (nat i)"
    unfolding abiWord_def using b by (simp add: a hexAcc_zeros hexAcc_natToString)
qed

lemma address_word:
  assumes "isAddress a"
  shows "padStart 64 CHR ''0'' (slice2 a) = replicate 24 CHR ''0'' @ drop 2 a"
    and "length (padStart 64 CHR ''0'' (slice2 a)) = 64"
    and "\<exists>v. addressValue a = Some v \<and> v < 2 ^ 160
           \<and> abiWord (padStart 64 CHR ''0'' (slice2 a)) = Some v"
proof -
  from assms have len: "length (drop 2 a) = 40" and hex: "isHexString (drop 2 a)"
    by (simp_all add: isAddress_def)
  show a: "padStart 64 CHR ''0'' (slice2 a) = replicate 24 CHR ''0'' @ drop 2 a"
    using len by (simp add: padStart_def slice2_def)
  show b: "length (padStart 64 CHR ''0'' (slice2 a)) = 64"
    unfolding a using len by simp
  from hexAcc_total [OF hex] obtain v where v: "hexAcc 0 (drop 2 a) = Some v" by blast
  from hexAcc_bound [OF v] len have "v < 16 ^ 40" by simp
  also have "(16::nat) ^ 40 = 2 ^ 160" by simp
  finally have "v < 2 ^ 160" .
  moreover have "addressValue a = Some v" using assms v by (simp add: addressValue_def)
  moreover have "abiWord (padStart 64 CHR ''0'' (slice2 a)) = Some v"
    unfolding abiWord_def using b by (simp add: a hexAcc_zeros v)
  ultimately show "\<exists>v. addressValue a = Some v \<and> v < 2 ^ 160
           \<and> abiWord (padStart 64 CHR ''0'' (slice2 a)) = Some v" by blast
qed

lemma toLowerCase_0x: "toLowerCase ''0x'' = ''0x''"
  by (simp add: toLowerCase_def lowerChar_def)

lemma isHexString_toLowerCase: "isHexString (toLowerCase s) = isHexString s"
  by (induction s) (simp_all add: isHexString_def toLowerCase_def hexDigitValue_lowerChar)

lemma isAddress_toLowerCase: "isAddress a \<Longrightarrow> isAddress (toLowerCase a)"
proof -
  assume a: "isAddress a"
  have t: "take 2 (toLowerCase a) = toLowerCase (take 2 a)"
    by (simp add: toLowerCase_def take_map)
  have d: "drop 2 (toLowerCase a) = toLowerCase (drop 2 a)"
    by (simp add: toLowerCase_def drop_map)
  have l: "length (toLowerCase a) = length a"
    by (simp add: toLowerCase_def)
  from a show ?thesis
    unfolding isAddress_def t d l by (simp add: toLowerCase_0x isHexString_toLowerCase)
qed

lemma abiWords_Suc_append:
  "length w = 64 \<Longrightarrow>
     abiWords (Suc n) (w @ rest) =
       (case abiWord w of
          None \<Rightarrow> None
        | Some v \<Rightarrow> (case abiWords n rest of None \<Rightarrow> None | Some vs \<Rightarrow> Some (v # vs)))"
  by (simp split: option.splits)

lemma addressValue_toLowerCase: "isAddress a \<Longrightarrow> addressValue (toLowerCase a) = addressValue a"
  using isAddress_toLowerCase [of a] hexAcc_toLowerCase [of 0 "drop 2 a"]
  by (simp add: addressValue_def toLowerCase_def drop_map)

lemma digitChar_hexDigitValue: "hexDigitValue c = Some d \<Longrightarrow> digitChar d = lowerChar c"
  by (auto simp: hexDigitValue_def digitChar_def lowerChar_def split: if_splits)

lemma natToString_digit: "d < 16 \<Longrightarrow> natToString 16 d = [digitChar d]"
  by (simp add: natToString.simps [of 16 d])

lemma natToString_snoc:
  "d < 16 \<Longrightarrow> 0 < v \<Longrightarrow> natToString 16 (16 * v + d) = natToString 16 v @ [digitChar d]"
  by (simp add: natToString.simps [of 16 "16 * v + d"])

lemma natToString_hexAcc:
  "s \<noteq> [] \<Longrightarrow> hexAcc 0 s = Some v \<Longrightarrow>
     length (natToString 16 v) \<le> length s
     \<and> replicate (length s - length (natToString 16 v)) CHR ''0'' @ natToString 16 v
         = map lowerChar s"
proof (induction s arbitrary: v rule: rev_induct)
  case Nil
  then show ?case by simp
next
  case (snoc c s)
  from snoc.prems(2) obtain v' d where v': "hexAcc 0 s = Some v'"
    and d: "hexDigitValue c = Some d" and v: "v = 16 * v' + d"
    by (auto simp: hexAcc_append split: option.splits)
  from d have d16: "d < 16" by (rule hexDigitValue_bound)
  from d have dc: "digitChar d = lowerChar c" by (rule digitChar_hexDigitValue)
  show ?case
  proof (cases "s = []")
    case True
    with v' have "v' = 0" by simp
    with v d16 dc True show ?thesis by (simp add: natToString_digit)
  next
    case False
    from snoc.IH [OF False v'] have len: "length (natToString 16 v') \<le> length s"
      and eq: "replicate (length s - length (natToString 16 v')) CHR ''0'' @ natToString 16 v'
                 = map lowerChar s" by simp_all
    show ?thesis
    proof (cases "v' = 0")
      case True
      have z: "natToString 16 0 = ''0''" by (simp add: natToString.simps [of 16 0] digitChar_def)
      from False obtain n where n: "length s = Suc n" by (cases s) auto
      have "replicate n CHR ''0'' @ [CHR ''0''] = replicate (Suc n) CHR ''0''"
        by (simp add: replicate_append_same)
      with eq True z n have "replicate (length s) CHR ''0'' = map lowerChar s"
        by simp
      with True v d16 dc show ?thesis by (simp add: natToString_digit)
    next
      case False
      then have "0 < v'" by simp
      from natToString_snoc [OF d16 this] v
      have n: "natToString 16 v = natToString 16 v' @ [digitChar d]" by simp
      from len eq dc show ?thesis unfolding n by simp
    qed
  qed
qed

lemma addressString_addressValue:
  assumes "isAddress a" and "addressValue a = Some v"
  shows "addressString v = toLowerCase a"
proof -
  from assms(1) have len: "length (drop 2 a) = 40" and pre: "take 2 a = ''0x''"
    by (simp_all add: isAddress_def)
  from len have ne: "drop 2 a \<noteq> []" by auto
  from assms have hv: "hexAcc 0 (drop 2 a) = Some v" by (simp add: addressValue_def)
  note n = natToString_hexAcc [OF ne hv, unfolded len]
  from n have l: "length (natToString 16 v) \<le> 40" ..
  from n have e: "replicate (40 - length (natToString 16 v)) CHR ''0'' @ natToString 16 v
              = map lowerChar (drop 2 a)" ..
  have "padStart 40 CHR ''0'' (natToString 16 v) = map lowerChar (drop 2 a)"
  proof (cases "length (natToString 16 v) = 40")
    case True
    with e show ?thesis by (simp add: padStart_def)
  next
    case False
    with l e show ?thesis by (simp add: padStart_def)
  qed
  moreover have "toLowerCase a = toLowerCase (take 2 a) @ toLowerCase (drop 2 a)"
    unfolding toLowerCase_def by (simp only: map_append [symmetric] append_take_drop_id)
  ultimately show ?thesis
    by (simp add: addressString_def pre toLowerCase_0x) (simp add: toLowerCase_def)
qed

lemma abiWords_0: "abiWords 0 [] = Some []"
  by simp


lemma abiWords_cons:
  "length w = 64 \<Longrightarrow> abiWord w = Some v \<Longrightarrow> abiWords n rest = Some vs \<Longrightarrow>
     abiWords (Suc n) (w @ rest) = Some (v # vs)"
  by (simp add: abiWords_Suc_append del: abiWords.simps)

lemma erc20Data_decode:
  assumes "isAddress targetAddress" and "0 \<le> bal" and "bal < 2 ^ 256"
  shows "erc20Data (TARGET_of targetAddress) bal =
           ''0xa9059cbb''
           @ (replicate 24 CHR ''0'' @ drop 2 (toLowerCase targetAddress))
           @ (replicate (64 - length (natToString 16 (nat bal))) CHR ''0''
              @ natToString 16 (nat bal))"
    and "length (erc20Data (TARGET_of targetAddress) bal) = 138"
    and "\<exists>recipient. addressValue targetAddress = Some recipient
               \<and> addressString recipient = toLowerCase targetAddress
               \<and> decodeTransfer (erc20Data (TARGET_of targetAddress) bal) = Some (recipient, bal)"
proof -
  let ?T = "TARGET_of targetAddress"
  let ?wa = "padStart 64 CHR ''0'' (slice2 ?T)"
  let ?wb = "padStart 64 CHR ''0'' (bigIntToString 16 bal)"
  have T: "isAddress ?T"
    using assms(1) by (simp add: TARGET_of_def isAddress_toLowerCase)
  have d: "erc20Data ?T bal = ''0xa9059cbb'' @ ?wa @ ?wb"
    by (simp add: erc20Data_def Let_def)
  have wa: "?wa = replicate 24 CHR ''0'' @ drop 2 (toLowerCase targetAddress)"
    using address_word(1) [OF T] by (simp add: TARGET_of_def)
  have wb: "?wb = replicate (64 - length (natToString 16 (nat bal))) CHR ''0''
                  @ natToString 16 (nat bal)"
    by (rule uint_word(1) [OF assms(2,3)])
  have la: "length ?wa = 64" by (rule address_word(2) [OF T])
  have lb: "length ?wb = 64" by (rule uint_word(2) [OF assms(2,3)])
  from address_word(3) [OF T] obtain r where
    r: "addressValue ?T = Some r" "r < 2 ^ 160" "abiWord ?wa = Some r" by blast
  have r': "addressValue targetAddress = Some r"
    using r(1) addressValue_toLowerCase [OF assms(1)] by (simp add: TARGET_of_def)
  have vb: "abiWord ?wb = Some (nat bal)" by (rule uint_word(3) [OF assms(2,3)])
  have "abiWords (Suc 0) (?wb @ []) = Some [nat bal]"
    by (rule abiWords_cons [OF lb vb]) simp
  then have "abiWords (Suc (Suc 0)) (?wa @ ?wb) = Some [r, nat bal]"
    using abiWords_cons [OF la r(3), of "Suc 0" ?wb "[nat bal]"] by simp
  then have ws: "abiWords 2 (?wa @ ?wb) = Some [r, nat bal]"
    by (simp add: numeral_2_eq_2)
  have dec: "decodeTransfer (erc20Data ?T bal) = Some (r, bal)"
    unfolding d decodeTransfer_def using ws r(2) assms(2) by (simp add: abiAddress_def)
  show "erc20Data ?T bal =
           ''0xa9059cbb''
           @ (replicate 24 CHR ''0'' @ drop 2 (toLowerCase targetAddress))
           @ (replicate (64 - length (natToString 16 (nat bal))) CHR ''0''
              @ natToString 16 (nat bal))"
    unfolding d wa wb ..
  show "length (erc20Data ?T bal) = 138"
    unfolding d using la lb by simp
  from r' dec addressString_addressValue [OF assms(1) r']
  show "\<exists>recipient. addressValue targetAddress = Some recipient
               \<and> addressString recipient = toLowerCase targetAddress
               \<and> decodeTransfer (erc20Data ?T bal) = Some (recipient, bal)" by blast
qed



lemma offset_word:
  "abiWord ''00000000000000000000000000000000000000000000000000000000000000a0'' = Some 160"
  by (simp add: abiWord_def hexDigitValue_def)

lemma zero_word:
  "abiWord ''0000000000000000000000000000000000000000000000000000000000000000'' = Some 0"
  by (simp add: abiWord_def hexDigitValue_def)

lemma nft_calldata:
  assumes "isAddress address" and "isAddress targetAddress"
    and "0 \<le> tokenId" and "tokenId < 2 ^ 256" and "0 \<le> amount" and "amount < 2 ^ 256"
  shows "erc721Data address (TARGET_of targetAddress) tokenId =
           ''0x42842e0e''
           @ (replicate 24 CHR ''0'' @ drop 2 address)
           @ (replicate 24 CHR ''0'' @ drop 2 (toLowerCase targetAddress))
           @ (replicate (64 - length (natToString 16 (nat tokenId))) CHR ''0''
              @ natToString 16 (nat tokenId))"
    and "erc1155Data address (TARGET_of targetAddress) tokenId amount =
           ''0xf242432a''
           @ (replicate 24 CHR ''0'' @ drop 2 address)
           @ (replicate 24 CHR ''0'' @ drop 2 (toLowerCase targetAddress))
           @ (replicate (64 - length (natToString 16 (nat tokenId))) CHR ''0''
              @ natToString 16 (nat tokenId))
           @ (replicate (64 - length (natToString 16 (nat amount))) CHR ''0''
              @ natToString 16 (nat amount))
           @ ''00000000000000000000000000000000000000000000000000000000000000a0''
           @ ''0000000000000000000000000000000000000000000000000000000000000000''"
    and "\<exists>f t. addressValue address = Some f \<and> addressValue targetAddress = Some t
           \<and> addressString f = toLowerCase address
           \<and> addressString t = toLowerCase targetAddress
           \<and> decodeSafeTransferFrom721 (erc721Data address (TARGET_of targetAddress) tokenId)
               = Some (f, t, tokenId)
           \<and> decodeSafeTransferFrom1155
                (erc1155Data address (TARGET_of targetAddress) tokenId amount)
               = Some (f, t, tokenId, amount, 0)"
proof -
  let ?T = "TARGET_of targetAddress"
  let ?wf = "padStart 64 CHR ''0'' (slice2 address)"
  let ?wt = "padStart 64 CHR ''0'' (slice2 ?T)"
  let ?wi = "padStart 64 CHR ''0'' (bigIntToString 16 tokenId)"
  let ?wm = "padStart 64 CHR ''0'' (bigIntToString 16 amount)"
  let ?wo = "''00000000000000000000000000000000000000000000000000000000000000a0''"
  let ?wz = "''0000000000000000000000000000000000000000000000000000000000000000''"
  have T: "isAddress ?T"
    using assms(2) by (simp add: TARGET_of_def isAddress_toLowerCase)
  have d721: "erc721Data address ?T tokenId = ''0x42842e0e'' @ ?wf @ ?wt @ ?wi"
    by (simp add: erc721Data_def Let_def)
  have d1155: "erc1155Data address ?T tokenId amount
                 = ''0xf242432a'' @ ?wf @ ?wt @ ?wi @ ?wm @ ?wo @ ?wz"
    by (simp add: erc1155Data_def Let_def)
  have wf: "?wf = replicate 24 CHR ''0'' @ drop 2 address"
    by (rule address_word(1) [OF assms(1)])
  have wt: "?wt = replicate 24 CHR ''0'' @ drop 2 (toLowerCase targetAddress)"
    using address_word(1) [OF T] by (simp add: TARGET_of_def)
  have wi: "?wi = replicate (64 - length (natToString 16 (nat tokenId))) CHR ''0''
                  @ natToString 16 (nat tokenId)"
    by (rule uint_word(1) [OF assms(3,4)])
  have wm: "?wm = replicate (64 - length (natToString 16 (nat amount))) CHR ''0''
                  @ natToString 16 (nat amount)"
    by (rule uint_word(1) [OF assms(5,6)])
  have lf: "length ?wf = 64" by (rule address_word(2) [OF assms(1)])
  have lt: "length ?wt = 64" by (rule address_word(2) [OF T])
  have li: "length ?wi = 64" by (rule uint_word(2) [OF assms(3,4)])
  have lm: "length ?wm = 64" by (rule uint_word(2) [OF assms(5,6)])
  have lo: "length ?wo = 64" and lz: "length ?wz = 64" by simp_all
  from address_word(3) [OF assms(1)] obtain f where
    f: "addressValue address = Some f" "f < 2 ^ 160" "abiWord ?wf = Some f" by blast
  from address_word(3) [OF T] obtain t where
    t: "addressValue ?T = Some t" "t < 2 ^ 160" "abiWord ?wt = Some t" by blast
  have t': "addressValue targetAddress = Some t"
    using t(1) addressValue_toLowerCase [OF assms(2)] by (simp add: TARGET_of_def)
  have vi: "abiWord ?wi = Some (nat tokenId)" by (rule uint_word(3) [OF assms(3,4)])
  have vm: "abiWord ?wm = Some (nat amount)" by (rule uint_word(3) [OF assms(5,6)])
  have e0: "abiWords 0 [] = Some []" by simp
  have a1: "abiWords (Suc 0) (?wi @ []) = Some [nat tokenId]"
    by (rule abiWords_cons [OF li vi e0])
  have a2: "abiWords (Suc (Suc 0)) (?wt @ ?wi @ []) = Some [t, nat tokenId]"
    by (rule abiWords_cons [OF lt t(3) a1])
  have a3: "abiWords (Suc (Suc (Suc 0))) (?wf @ ?wt @ ?wi @ []) = Some [f, t, nat tokenId]"
    by (rule abiWords_cons [OF lf f(3) a2])
  have ws721: "abiWords 3 (?wf @ ?wt @ ?wi) = Some [f, t, nat tokenId]"
    using a3 by (simp add: numeral_3_eq_3 del: abiWords.simps)
  have b1: "abiWords (Suc 0) (?wz @ []) = Some [0]"
    by (rule abiWords_cons [OF lz zero_word e0])
  have b2: "abiWords (Suc (Suc 0)) (?wo @ ?wz @ []) = Some [160, 0]"
    by (rule abiWords_cons [OF lo offset_word b1])
  have b3: "abiWords (Suc (Suc (Suc 0))) (?wm @ ?wo @ ?wz @ []) = Some [nat amount, 160, 0]"
    by (rule abiWords_cons [OF lm vm b2])
  have b4: "abiWords (Suc (Suc (Suc (Suc 0)))) (?wi @ ?wm @ ?wo @ ?wz @ [])
              = Some [nat tokenId, nat amount, 160, 0]"
    by (rule abiWords_cons [OF li vi b3])
  have b5: "abiWords (Suc (Suc (Suc (Suc (Suc 0))))) (?wt @ ?wi @ ?wm @ ?wo @ ?wz @ [])
              = Some [t, nat tokenId, nat amount, 160, 0]"
    by (rule abiWords_cons [OF lt t(3) b4])
  have b6: "abiWords (Suc (Suc (Suc (Suc (Suc (Suc 0)))))) (?wf @ ?wt @ ?wi @ ?wm @ ?wo @ ?wz @ [])
              = Some [f, t, nat tokenId, nat amount, 160, 0]"
    by (rule abiWords_cons [OF lf f(3) b5])
  have six: "(6::nat) = Suc (Suc (Suc (Suc (Suc (Suc 0)))))" by simp
  have ws1155: "abiWords 6 (?wf @ ?wt @ ?wi @ ?wm @ ?wo @ ?wz)
                  = Some [f, t, nat tokenId, nat amount, 160, 0]"
    unfolding six using b6 by (simp del: abiWords.simps)
  have dec721: "decodeSafeTransferFrom721 (erc721Data address ?T tokenId) = Some (f, t, tokenId)"
    unfolding d721 decodeSafeTransferFrom721_def
    using ws721 f(2) t(2) assms(3) by (simp add: abiAddress_def del: abiWords.simps)
  have dec1155: "decodeSafeTransferFrom1155 (erc1155Data address ?T tokenId amount)
                   = Some (f, t, tokenId, amount, 0)"
    unfolding d1155 decodeSafeTransferFrom1155_def
    using ws1155 f(2) t(2) assms(3,5) by (simp add: abiAddress_def del: abiWords.simps)
  show "erc721Data address ?T tokenId =
           ''0x42842e0e''
           @ (replicate 24 CHR ''0'' @ drop 2 address)
           @ (replicate 24 CHR ''0'' @ drop 2 (toLowerCase targetAddress))
           @ (replicate (64 - length (natToString 16 (nat tokenId))) CHR ''0''
              @ natToString 16 (nat tokenId))"
    unfolding d721 wf wt wi ..
  show "erc1155Data address ?T tokenId amount =
           ''0xf242432a''
           @ (replicate 24 CHR ''0'' @ drop 2 address)
           @ (replicate 24 CHR ''0'' @ drop 2 (toLowerCase targetAddress))
           @ (replicate (64 - length (natToString 16 (nat tokenId))) CHR ''0''
              @ natToString 16 (nat tokenId))
           @ (replicate (64 - length (natToString 16 (nat amount))) CHR ''0''
              @ natToString 16 (nat amount))
           @ ?wo @ ?wz"
    unfolding d1155 wf wt wi wm ..
  from f(1) t' dec721 dec1155 addressString_addressValue [OF assms(1) f(1)]
    addressString_addressValue [OF assms(2) t']
  show "\<exists>f t. addressValue address = Some f \<and> addressValue targetAddress = Some t
           \<and> addressString f = toLowerCase address
           \<and> addressString t = toLowerCase targetAddress
           \<and> decodeSafeTransferFrom721 (erc721Data address ?T tokenId) = Some (f, t, tokenId)
           \<and> decodeSafeTransferFrom1155 (erc1155Data address ?T tokenId amount)
               = Some (f, t, tokenId, amount, 0)"
    by blast
qed

text \<open>
  Claim C9, as amended. For well-formed addresses and integers in the range of \<^verbatim>\<open>uint256\<close>,
  every integer argument of the three payloads is 64 hex digits, most significant first and
  zero-padded, and every address argument is left-padded with zeros to 64 hex digits; the
  recipient is lower-cased, while the from-address of the two \<^verbatim>\<open>safeTransferFrom\<close> payloads
  keeps the case of the wallet address it is given. Each payload decodes under the ABI to the
  addresses and integers it was built from.
\<close>

theorem calldata_encoding:
  assumes "isAddress address" and "isAddress targetAddress"
    and "0 \<le> tokenId" and "tokenId < 2 ^ 256" and "0 \<le> amount" and "amount < 2 ^ 256"
    and "0 \<le> bal" and "bal < 2 ^ 256"
  shows "erc20Data (TARGET_of targetAddress) bal =
           ''0xa9059cbb''
           @ (replicate 24 CHR ''0'' @ drop 2 (toLowerCase targetAddress))
           @ (replicate (64 - length (natToString 16 (nat bal))) CHR ''0''
              @ natToString 16 (nat bal))
       \<and> erc721Data address (TARGET_of targetAddress) tokenId =
           ''0x42842e0e''
           @ (replicate 24 CHR ''0'' @ drop 2 address)
           @ (replicate 24 CHR ''0'' @ drop 2 (toLowerCase targetAddress))
           @ (replicate (64 - length (natToString 16 (nat tokenId))) CHR ''0''
              @ natToString 16 (nat tokenId))
       \<and> erc1155Data address (TARGET_of targetAddress) tokenId amount =
           ''0xf242432a''
           @ (replicate 24 CHR ''0'' @ drop 2 address)
           @ (replicate 24 CHR ''0'' @ drop 2 (toLowerCase targetAddress))
           @ (replicate (64 - length (natToString 16 (nat tokenId))) CHR ''0''
              @ natToString 16 (nat tokenId))
           @ (replicate (64 - length (natToString 16 (nat amount))) CHR ''0''
              @ natToString 16 (nat amount))
           @ ''00000000000000000000000000000000000000000000000000000000000000a0''
           @ ''0000000000000000000000000000000000000000000000000000000000000000''
       \<and> (\<exists>f t. addressValue address = Some f \<and> addressValue targetAddress = Some t
            \<and> addressString f = toLowerCase address
            \<and> addressString t = toLowerCase targetAddress
            \<and> decodeTransfer (erc20Data (TARGET_of targetAddress) bal) = Some (t, bal)
            \<and> decodeSafeTransferFrom721 (erc721Data address (TARGET_of targetAddress) tokenId)
                = Some (f, t, tokenId)
            \<and> decodeSafeTransferFrom1155
                 (erc1155Data address (TARGET_of targetAddress) tokenId amount)
                = Some (f, t, tokenId, amount, 0))"
proof -
  note n = nft_calldata [OF assms(1-6)]
  note e = erc20Data_decode [OF assms(2,7,8)]
  from n(3) obtain f t where ft: "addressValue address = Some f"
    "addressValue targetAddress = Some t"
    "addressString f = toLowerCase address"
    "addressString t = toLowerCase targetAddress"
    "decodeSafeTransferFrom721 (erc721Data address (TARGET_of targetAddress) tokenId)
       = Some (f, t, tokenId)"
    "decodeSafeTransferFrom1155 (erc1155Data address (TARGET_of targetAddress) tokenId amount)
       = Some (f, t, tokenId, amount, 0)"
    by blast
  from e(3) ft(2) have "decodeTransfer (erc20Data (TARGET_of targetAddress) bal) = Some (t, bal)"
    by auto
  with ft have "\<exists>f t. addressValue address = Some f \<and> addressValue targetAddress = Some t
            \<and> addressString f = toLowerCase address
            \<and> addressString t = toLowerCase targetAddress
            \<and> decodeTransfer (erc20Data (TARGET_of targetAddress) bal) = Some (t, bal)
            \<and> decodeSafeTransferFrom721 (erc721Data address (TARGET_of targetAddress) tokenId)
                = Some (f, t, tokenId)
            \<and> decodeSafeTransferFrom1155
                 (erc1155Data address (TARGET_of targetAddress) tokenId amount)
                = Some (f, t, tokenId, amount, 0)"
    by blast
  with e(1) n(1) n(2) show ?thesis by blast
qed

theorem calldata_encoding_witness:
  "isAddress ''0x9d5befd138960DDF0dC4368A036bfAd420E306Ef''
   \<and> decodeSafeTransferFrom721
        (erc721Data ''0x9d5befd138960DDF0dC4368A036bfAd420E306Ef''
           (TARGET_of ''0x9d5befd138960DDF0dC4368A036bfAd420E306Ef'') 7)
       = Some (898361809862977362821771859455932846328902780655,
               898361809862977362821771859455932846328902780655, 7)
   \<and> decodeSafeTransferFrom1155
        (erc1155Data ''0x9d5befd138960DDF0dC4368A036bfAd420E306Ef''
           (TARGET_of ''0x9d5befd138960DDF0dC4368A036bfAd420E306Ef'') 7 3)
       = Some (898361809862977362821771859455932846328902780655,
               898361809862977362821771859455932846328902780655, 7, 3, 0)"
proof -
  let ?A = "''0x9d5befd138960DDF0dC4368A036bfAd420E306Ef''"
  have a: "isAddress ?A"
    by (simp add: isAddress_def isHexString_def hexDigitValue_def)
  have v: "addressValue ?A = Some 898361809862977362821771859455932846328902780655"
    using a by (simp add: addressValue_def hexDigitValue_def)
  have p: "(0::int) \<le> 7" "(7::int) < 2 ^ 256" "(0::int) \<le> 3" "(3::int) < 2 ^ 256"
    "(0::int) \<le> 1000" "(1000::int) < 2 ^ 256" by simp_all
  from calldata_encoding [OF a a p]
  obtain f t where ft: "addressValue ?A = Some f" "addressValue ?A = Some t"
    "decodeSafeTransferFrom721 (erc721Data ?A (TARGET_of ?A) 7) = Some (f, t, 7)"
    "decodeSafeTransferFrom1155 (erc1155Data ?A (TARGET_of ?A) 7 3) = Some (f, t, 7, 3, 0)"
    by blast
  from ft(1,2) v have "f = 898361809862977362821771859455932846328902780655"
    "t = 898361809862977362821771859455932846328902780655" by simp_all
  with a ft(3,4) show ?thesis by simp
qed

text \<open>
  The claim as stated fails for a check-summed wallet address: the from-address word of the
  ERC-721 and ERC-1155 payloads is not the lower-cased address.
\<close>

theorem from_address_case_counterexample:
  "isAddress ''0x9d5befd138960DDF0dC4368A036bfAd420E306Ef''
   \<and> take 64 (drop 10 (erc721Data ''0x9d5befd138960DDF0dC4368A036bfAd420E306Ef''
                          (TARGET_of ''0x9d5befd138960DDF0dC4368A036bfAd420E306Ef'') 7))
       = replicate 24 CHR ''0'' @ ''9d5befd138960DDF0dC4368A036bfAd420E306Ef''
   \<and> take 64 (drop 10 (erc721Data ''0x9d5befd138960DDF0dC4368A036bfAd420E306Ef''
                          (TARGET_of ''0x9d5befd138960DDF0dC4368A036bfAd420E306Ef'') 7))
       \<noteq> padStart 64 CHR ''0'' (slice2 (toLowerCase ''0x9d5befd138960DDF0dC4368A036bfAd420E306Ef''))
   \<and> take 64 (drop 10 (erc1155Data ''0x9d5befd138960DDF0dC4368A036bfAd420E306Ef''
                          (TARGET_of ''0x9d5befd138960DDF0dC4368A036bfAd420E306Ef'') 7 1))
       \<noteq> padStart 64 CHR ''0'' (slice2 (toLowerCase ''0x9d5befd138960DDF0dC4368A036bfAd420E306Ef''))"
  by (simp add: isAddress_def isHexString_def hexDigitValue_def erc721Data_def erc1155Data_def
      padStart_def slice2_def toLowerCase_def lowerChar_def Let_def)


subsection \<open>Sorting\<close>

lemma mset_insertBy: "mset (insertBy c x ys) = add_mset x (mset ys)"
  by (induction ys) simp_all

lemma mset_sortBy: "mset (sortBy c xs) = mset xs"
  by (induction xs) (simp_all add: sortBy_def mset_insertBy)

lemma set_sortBy: "set (sortBy c xs) = set xs"
  using mset_sortBy [of c xs] by (metis set_mset_mset)

lemma length_sortBy: "length (sortBy c xs) = length xs"
  using mset_sortBy [of c xs] by (metis size_mset)

lemma set_insertBy: "set (insertBy c x ys) = insert x (set ys)"
  using mset_insertBy [of c x ys] by (metis set_mset_mset set_mset_add_mset_insert)

lemma sorted_insertBy:
  assumes total: "\<And>a b. c a b \<le> 0 \<or> c b a \<le> 0"
    and trans: "\<And>a b d. c a b \<le> 0 \<Longrightarrow> c b d \<le> 0 \<Longrightarrow> c a d \<le> 0"
  shows "sorted_wrt (\<lambda>a b. c a b \<le> 0) ys \<Longrightarrow> sorted_wrt (\<lambda>a b. c a b \<le> 0) (insertBy c x ys)"
proof (induction ys)
  case Nil
  then show ?case by simp
next
  case (Cons y ys)
  show ?case
  proof (cases "c x y \<le> 0")
    case True
    with Cons.prems trans show ?thesis by auto
  next
    case False
    with total have "c y x \<le> 0" by blast
    with False Cons show ?thesis by (auto simp: set_insertBy)
  qed
qed

lemma sorted_sortBy:
  assumes total: "\<And>a b. c a b \<le> 0 \<or> c b a \<le> 0"
    and trans: "\<And>a b d. c a b \<le> 0 \<Longrightarrow> c b d \<le> 0 \<Longrightarrow> c a d \<le> 0"
  shows "sorted_wrt (\<lambda>a b. c a b \<le> 0) (sortBy c xs)"
proof (induction xs)
  case Nil
  show ?case by (simp add: sortBy_def)
next
  case (Cons x xs)
  have "sortBy c (x # xs) = insertBy c x (sortBy c xs)" by (simp add: sortBy_def)
  with Cons sorted_insertBy [of c "sortBy c xs" x, OF total trans] show ?case by simp
qed

lemma filter_insertBy_in:
  "P x \<Longrightarrow> (\<And>y. y \<in> set ys \<Longrightarrow> P y \<Longrightarrow> c x y \<le> 0) \<Longrightarrow>
     filter P (insertBy c x ys) = x # filter P ys"
  by (induction ys) auto

lemma filter_insertBy_out: "\<not> P x \<Longrightarrow> filter P (insertBy c x ys) = filter P ys"
  by (induction ys) auto

lemma filter_sortBy_stable:
  assumes "\<And>a b. P a \<Longrightarrow> P b \<Longrightarrow> c a b \<le> 0"
  shows "filter P (sortBy c xs) = filter P xs"
proof (induction xs)
  case Nil
  show ?case by (simp add: sortBy_def)
next
  case (Cons x xs)
  have s: "sortBy c (x # xs) = insertBy c x (sortBy c xs)" by (simp add: sortBy_def)
  show ?case
  proof (cases "P x")
    case True
    then have "filter P (insertBy c x (sortBy c xs)) = x # filter P (sortBy c xs)"
      using assms by (intro filter_insertBy_in) auto
    with True Cons s show ?thesis by simp
  next
    case False
    with Cons s show ?thesis by (simp add: filter_insertBy_out)
  qed
qed

lemma sorted_wrt_take_drop:
  "sorted_wrt R xs \<Longrightarrow> a \<in> set (take n xs) \<Longrightarrow> b \<in> set (drop n xs) \<Longrightarrow> R a b"
proof -
  assume s: "sorted_wrt R xs" and a: "a \<in> set (take n xs)" and b: "b \<in> set (drop n xs)"
  have "sorted_wrt R (take n xs @ drop n xs)" using s by simp
  then show "R a b" unfolding sorted_wrt_append using a b by blast
qed

lemma sorted_final:
  "sorted_wrt (\<lambda>a b. tx_usd_value b \<le> tx_usd_value a) (sortBy finalCompare xs)"
proof -
  have "sorted_wrt (\<lambda>a b. finalCompare a b \<le> 0) (sortBy finalCompare xs)"
    by (rule sorted_sortBy) (auto simp: finalCompare_def Let_def)
  then show ?thesis by (simp add: finalCompare_def Let_def)
qed

text \<open>
  Claim C3. The final list is the first ten elements of the merged list sorted by USD value,
  highest first. It is in descending order of USD value, it has ten elements whenever the
  merged list has more than ten, every candidate kept is worth at least as much as every
  candidate dropped, and kept and dropped candidates together are the merged list. With 50
  candidates, 10 are kept and 40 dropped.
\<close>

theorem final_selection_top_by_value:
  "finalTransactions xs = take MAX_BATCH_SIZE (sortBy finalCompare xs)
   \<and> MAX_BATCH_SIZE = 10
   \<and> mset (finalTransactions xs) + mset (drop MAX_BATCH_SIZE (sortBy finalCompare xs)) = mset xs
   \<and> length (finalTransactions xs) = min 10 (length xs)
   \<and> (10 < length xs \<longrightarrow> length (finalTransactions xs) = 10)
   \<and> (length xs = 50 \<longrightarrow> length (finalTransactions xs) = 10
         \<and> length (drop MAX_BATCH_SIZE (sortBy finalCompare xs)) = 40)
   \<and> sorted_wrt (\<lambda>a b. tx_usd_value b \<le> tx_usd_value a) (finalTransactions xs)
   \<and> (\<forall>kept \<in> set (finalTransactions xs).
         \<forall>dropped \<in> set (drop MAX_BATCH_SIZE (sortBy finalCompare xs)).
           tx_usd_value dropped \<le> tx_usd_value kept)"
proof -
  let ?S = "sortBy finalCompare xs"
  have f: "finalTransactions xs = take MAX_BATCH_SIZE ?S"
    by (simp add: finalTransactions_def)
  have m: "mset (finalTransactions xs) + mset (drop MAX_BATCH_SIZE ?S) = mset xs"
  proof -
    have "mset (take MAX_BATCH_SIZE ?S @ drop MAX_BATCH_SIZE ?S) = mset xs"
      by (simp add: mset_sortBy)
    then show ?thesis unfolding f by (simp only: mset_append)
  qed
  have l: "length (finalTransactions xs) = min 10 (length xs)"
    by (simp add: f MAX_BATCH_SIZE_def length_sortBy min.commute)
  have l50: "length xs = 50 \<longrightarrow> length (finalTransactions xs) = 10
         \<and> length (drop MAX_BATCH_SIZE ?S) = 40"
    by (simp add: l MAX_BATCH_SIZE_def length_sortBy)
  have s: "sorted_wrt (\<lambda>a b. tx_usd_value b \<le> tx_usd_value a) (finalTransactions xs)"
    unfolding f using sorted_final [of xs] by (rule sorted_wrt_take)
  have d: "\<forall>kept \<in> set (finalTransactions xs). \<forall>dropped \<in> set (drop MAX_BATCH_SIZE ?S).
             tx_usd_value dropped \<le> tx_usd_value kept"
    unfolding f using sorted_wrt_take_drop [OF sorted_final [of xs]] by blast
  from f m l l50 s d show ?thesis by (simp add: MAX_BATCH_SIZE_def)
qed


theorem final_selection_top_by_value_witness:
  "length (finalTransactions
     (map (\<lambda>v. \<lparr>tx_type = erc20_transfer, tx_to = None, tx_value = 0, tx_data = None,
              tx_balance = None, tx_usd_value = v\<rparr>)
      [25, 36, 15, 32, 11, 49, 12, 17, 29, 30, 43, 39, 31, 9, 1, 47, 20, 13, 22, 44, 48, 23, 50, 8, 40, 19, 34, 2, 41, 18, 37, 16, 45, 27, 28, 6, 3, 14, 33, 46, 38, 24, 7, 35, 5, 4, 42, 26, 10, 21])) = 10
   \<and> map tx_usd_value (finalTransactions
     (map (\<lambda>v. \<lparr>tx_type = erc20_transfer, tx_to = None, tx_value = 0, tx_data = None,
              tx_balance = None, tx_usd_value = v\<rparr>)
      [25, 36, 15, 32, 11, 49, 12, 17, 29, 30, 43, 39, 31, 9, 1, 47, 20, 13, 22, 44, 48, 23, 50, 8, 40, 19, 34, 2, 41, 18, 37, 16, 45, 27, 28, 6, 3, 14, 33, 46, 38, 24, 7, 35, 5, 4, 42, 26, 10, 21]))
     = [50, 49, 48, 47, 46, 45, 44, 43, 42, 41]"
proof -
  let ?L = "map (\<lambda>v. \<lparr>tx_type = erc20_transfer, tx_to = None, tx_value = 0, tx_data = None,
              tx_balance = None, tx_usd_value = v\<rparr>)
      [25, 36, 15, 32, 11, 49, 12, 17, 29, 30, 43, 39, 31, 9, 1, 47, 20, 13, 22, 44, 48, 23, 50, 8, 40, 19, 34, 2, 41, 18, 37, 16, 45, 27, 28, 6, 3, 14, 33, 46, 38, 24, 7, 35, 5, 4, 42, 26, 10, 21]"
  have n: "10 < length ?L" by simp
  from final_selection_top_by_value [of ?L] n have a: "length (finalTransactions ?L) = 10"
    by blast
  have b: "map tx_usd_value (finalTransactions ?L) = [50, 49, 48, 47, 46, 45, 44, 43, 42, 41]"
    by (simp add: finalTransactions_def MAX_BATCH_SIZE_def sortBy_def finalCompare_def)
  from a b show ?thesis by blast
qed

subsection \<open>BatchSubmitter\<close>




lemma startsWith_0x_toLowerCase: "startsWith s ''0x'' \<Longrightarrow> startsWith (toLowerCase s) ''0x''"
proof -
  assume "startsWith s ''0x''"
  then have "take 2 s = ''0x''" by (simp add: startsWith_def numeral_2_eq_2)
  then have "toLowerCase (take 2 s) = ''0x''" by (simp add: toLowerCase_0x)
  then have "take 2 (toLowerCase s) = ''0x''" by (simp add: toLowerCase_def take_map)
  then show ?thesis by (simp add: startsWith_def numeral_2_eq_2)
qed

lemma formatCall_valid: "formatCall i t = Inr c \<Longrightarrow> validateCall j c = None"
proof -
  assume a: "formatCall i t = Inr c"
  then obtain to where to: "tx_to t = Some to" "to \<noteq> []" "startsWith to ''0x''" "length to = 42"
    and c: "c = \<lparr>call_to = toLowerCase to,
                    call_value = BigInt (if tx_value t \<noteq> 0 then tx_value t else 0),
                    call_data =
                      (case tx_data t of
                         None \<Rightarrow> None
                       | Some d \<Rightarrow> if d \<noteq> [] \<and> startsWith d ''0x'' \<and> length d > 2
                                   then Some d else None)\<rparr>"
    by (auto simp: formatCall_def split: option.splits if_splits)
  have 1: "call_to c \<noteq> []" using to c by (auto simp: toLowerCase_def)
  have 2: "startsWith (call_to c) ''0x''" using to c by (simp add: startsWith_0x_toLowerCase)
  have 3: "length (call_to c) = 42" using to c by (simp add: toLowerCase_def)
  have 4: "case call_data c of None \<Rightarrow> True | Some d \<Rightarrow> startsWith d ''0x'' \<and> length d > 2"
    using c by (simp split: option.splits)
  have 5: "call_value c \<noteq> NotBigInt" using c by simp
  from 1 2 3 4 5 show ?thesis by (auto simp: validateCall_def split: option.splits)
qed

lemma formatCalls_valid: "formatCalls i txs = Inr calls \<Longrightarrow> validateCalls j calls = None"
proof (induction txs arbitrary: i j calls)
  case Nil
  then show ?case by simp
next
  case (Cons t ts)
  from Cons.prems obtain c cs where c: "formatCall i t = Inr c"
    and cs: "formatCalls (Suc i) ts = Inr cs" and calls: "calls = c # cs"
    by (auto split: sum.splits)
  from formatCall_valid [OF c] Cons.IH [OF cs] calls show ?case by simp
qed


lemma submitBatch_cases:
  "submitBatch sendCalls chainId txs =
     (if txs = [] then (NothingToTransfer, [])
      else case formatCalls 0 txs of
             Inl e \<Rightarrow> (Aborted e, [])
           | Inr calls \<Rightarrow>
               if chainId = 0 then (Aborted InvalidChainId, [])
               else if sendCalls \<lparr>send_chainId = chainId, send_calls = calls\<rparr>
               then (Submitted, [\<lparr>send_chainId = chainId, send_calls = calls\<rparr>])
               else (Aborted SendCallsRejected, [\<lparr>send_chainId = chainId, send_calls = calls\<rparr>]))"
  by (auto simp: submitBatch_def sendValidated_def Let_def formatCalls_valid
      split: sum.splits option.splits)







subsection \<open>PrecheckGate\<close>

lemma pool_bounded: "length (erc20PrecheckTransactions pf TARGET tokens) \<le> 20"
  by (simp add: erc20PrecheckTransactions_def erc20ToPrecheck_def MAX_PRECHECK_COUNT_def)

lemma allTransactions_no_erc20:
  "t \<in> set (allTransactions arith address TARGET b g u p nfts) \<Longrightarrow> tx_type t \<noteq> erc20_transfer"
  by (auto simp: allTransactions_def
      dest: nativeTransfers_type erc721Transfers_type erc1155Transfers_type)

lemma allTransactions_kept:
  "t \<in> set allTxs \<Longrightarrow> tx_type t \<noteq> erc20_transfer \<Longrightarrow> t \<in> set (allValidTransactions allTxs valid)"
  by (cases "tx_type t") (auto simp: allValidTransactions_def Let_def)

text \<open>
  Claim C5. The precheck loop retains exactly the transactions whose simulated call
  succeeds, in their original order, and makes one call for each transaction of the pool,
  in order: a failed call is not retried and has no effect on the other candidates. In a
  sweep the pool holds at most 20 transactions, all of them ERC-20 transfers, so no native
  or NFT transfer is ever simulated, and every native and NFT transfer is in the merged list
  whatever the calls return. With three ERC-20 candidates of which the second reverts, one
  native and one ERC-721 transfer, the merged list is the other four.
\<close>

theorem precheck_gate:
  "fst (precheckLoop call address pool) = filter (\<lambda>t. call (precheckRequest address t)) pool
   \<and> snd (precheckLoop call address pool) = map (precheckRequest address) pool
   \<and> sweep_validERC20 (selectTransactions arith pf call address targetAddress chainId cat)
       = filter (\<lambda>t. call (precheckRequest address t))
           (sweep_precheckPool (selectTransactions arith pf call address targetAddress chainId cat))
   \<and> sweep_precheckCalls (selectTransactions arith pf call address targetAddress chainId cat)
       = map (precheckRequest address)
           (sweep_precheckPool (selectTransactions arith pf call address targetAddress chainId cat))
   \<and> length (sweep_precheckPool (selectTransactions arith pf call address targetAddress chainId cat))
       \<le> 20
   \<and> (\<forall>t \<in> set (sweep_precheckPool (selectTransactions arith pf call address targetAddress chainId cat)).
         tx_type t = erc20_transfer)
   \<and> (\<forall>t \<in> set (sweep_allTransactions
                   (selectTransactions arith pf call address targetAddress chainId cat)).
         tx_type t \<noteq> erc20_transfer
         \<and> t \<in> set (sweep_allValid
                      (selectTransactions arith pf call address targetAddress chainId cat)))
   \<and> sweep_allValid (selectTransactions arith pf call address targetAddress chainId cat)
       = filter (\<lambda>t. tx_type t = native_transfer)
           (sweep_allTransactions (selectTransactions arith pf call address targetAddress chainId cat))
         @ sweep_validERC20 (selectTransactions arith pf call address targetAddress chainId cat)
         @ filter (\<lambda>t. tx_type t = erc721_transfer)
             (sweep_allTransactions (selectTransactions arith pf call address targetAddress chainId cat))
         @ filter (\<lambda>t. tx_type t = erc1155_transfer)
             (sweep_allTransactions (selectTransactions arith pf call address targetAddress chainId cat))
   \<and> (call (precheckRequest address t1) \<and> \<not> call (precheckRequest address t2)
        \<and> call (precheckRequest address t3)
        \<and> tx_type n = native_transfer \<and> tx_type e = erc721_transfer \<longrightarrow>
        allValidTransactions [n, e] (fst (precheckLoop call address [t1, t2, t3]))
          = [n, t1, t3, e])"
proof -
  let ?S = "selectTransactions arith pf call address targetAddress chainId cat"
  note f = sweep_fields [of arith pf call address targetAddress chainId cat]
  have 1: "fst (precheckLoop call address pool) = filter (\<lambda>t. call (precheckRequest address t)) pool"
    by (rule precheckLoop_filter)
  have 2: "snd (precheckLoop call address pool) = map (precheckRequest address) pool"
    by (rule precheckLoop_calls)
  have 3: "sweep_validERC20 ?S
       = filter (\<lambda>t. call (precheckRequest address t)) (sweep_precheckPool ?S)"
    by (simp only: f)
  have 4: "sweep_precheckCalls ?S = map (precheckRequest address) (sweep_precheckPool ?S)"
    by (simp only: f)
  have 5: "length (sweep_precheckPool ?S) \<le> 20"
    by (simp only: f pool_bounded)
  have 6: "\<forall>t \<in> set (sweep_precheckPool ?S). tx_type t = erc20_transfer"
    unfolding f by (blast dest: erc20Pool_type)
  have 8: "sweep_allValid ?S
       = filter (\<lambda>t. tx_type t = native_transfer) (sweep_allTransactions ?S)
         @ sweep_validERC20 ?S
         @ filter (\<lambda>t. tx_type t = erc721_transfer) (sweep_allTransactions ?S)
         @ filter (\<lambda>t. tx_type t = erc1155_transfer) (sweep_allTransactions ?S)"
    unfolding f sweep_allValid_eq
    by (simp only: allTransactions_native allTransactions_erc721 allTransactions_erc1155)
  have 7: "\<forall>t \<in> set (sweep_allTransactions ?S).
         tx_type t \<noteq> erc20_transfer \<and> t \<in> set (sweep_allValid ?S)"
  proof
    fix t
    assume t: "t \<in> set (sweep_allTransactions ?S)"
    then have ne: "tx_type t \<noteq> erc20_transfer"
      unfolding f by (rule allTransactions_no_erc20)
    then have "t \<in> set (sweep_allValid ?S)"
      unfolding 8 using t by (cases "tx_type t") auto
    with ne show "tx_type t \<noteq> erc20_transfer \<and> t \<in> set (sweep_allValid ?S)" by simp
  qed
  have 9: "call (precheckRequest address t1) \<and> \<not> call (precheckRequest address t2)
        \<and> call (precheckRequest address t3)
        \<and> tx_type n = native_transfer \<and> tx_type e = erc721_transfer \<longrightarrow>
        allValidTransactions [n, e] (fst (precheckLoop call address [t1, t2, t3]))
          = [n, t1, t3, e]"
    by (simp add: precheckLoop_filter allValidTransactions_def Let_def)
  from 1 2 3 4 5 6 7 8 9 show ?thesis by blast
qed


theorem precheck_gate_witness:
  "map (\<lambda>t. (tx_type t, tx_to t))
     (sweep_allValid
       (selectTransactions exactArith real_of_int (\<lambda>r. call_req_to r \<noteq> Some ''0xbbbbbbbbbbbbbbbbbbbbbbbbbbbbbbbbbbbbbbbb'')
          ''0x9d5befd138960DDF0dC4368A036bfAd420E306Ef'' ''0x9d5befd138960DDF0dC4368A036bfAd420E306Ef'' 1
          \<lparr>allTokens =
             [\<lparr>token_address = ''0xaaaaaaaaaaaaaaaaaaaaaaaaaaaaaaaaaaaaaaaa'', decimals = 18, balance = 100, usd_value = 30,
               native_token = False\<rparr>,
              \<lparr>token_address = ''0xbbbbbbbbbbbbbbbbbbbbbbbbbbbbbbbbbbbbbbbb'', decimals = 18, balance = 200, usd_value = 20,
               native_token = False\<rparr>,
              \<lparr>token_address = ''0xcccccccccccccccccccccccccccccccccccccccc'', decimals = 6, balance = 300, usd_value = 10,
               native_token = False\<rparr>],
           nftList =
             [\<lparr>nft_contract_type = ''ERC721'', nft_token_id = 7,
               nft_token_address = Some ''0xdddddddddddddddddddddddddddddddddddddddd'',
               nft_floor_price_usd = PriceNumber (Some 5), nft_amount = None\<rparr>],
           nativeBalance = 1000000000000000000, nativeTokenUsdValue = 2000,
           nativeTokenPrice = 2000\<rparr>))
   = [(native_transfer, Some ''0x9d5befd138960ddf0dc4368a036bfad420e306ef''),
      (erc20_transfer, Some ''0xaaaaaaaaaaaaaaaaaaaaaaaaaaaaaaaaaaaaaaaa''),
      (erc20_transfer, Some ''0xcccccccccccccccccccccccccccccccccccccccc''),
      (erc721_transfer, Some ''0xdddddddddddddddddddddddddddddddddddddddd'')]
   \<and> map call_req_to
     (sweep_precheckCalls
       (selectTransactions exactArith real_of_int (\<lambda>r. call_req_to r \<noteq> Some ''0xbbbbbbbbbbbbbbbbbbbbbbbbbbbbbbbbbbbbbbbb'')
          ''0x9d5befd138960DDF0dC4368A036bfAd420E306Ef'' ''0x9d5befd138960DDF0dC4368A036bfAd420E306Ef'' 1
          \<lparr>allTokens =
             [\<lparr>token_address = ''0xaaaaaaaaaaaaaaaaaaaaaaaaaaaaaaaaaaaaaaaa'', decimals = 18, balance = 100, usd_value = 30,
               native_token = False\<rparr>,
              \<lparr>token_address = ''0xbbbbbbbbbbbbbbbbbbbbbbbbbbbbbbbbbbbbbbbb'', decimals = 18, balance = 200, usd_value = 20,
               native_token = False\<rparr>,
              \<lparr>token_address = ''0xcccccccccccccccccccccccccccccccccccccccc'', decimals = 6, balance = 300, usd_value = 10,
               native_token = False\<rparr>],
           nftList =
             [\<lparr>nft_contract_type = ''ERC721'', nft_token_id = 7,
               nft_token_address = Some ''0xdddddddddddddddddddddddddddddddddddddddd'',
               nft_floor_price_usd = PriceNumber (Some 5), nft_amount = None\<rparr>],
           nativeBalance = 1000000000000000000, nativeTokenUsdValue = 2000,
           nativeTokenPrice = 2000\<rparr>))
   = [Some ''0xaaaaaaaaaaaaaaaaaaaaaaaaaaaaaaaaaaaaaaaa'',
      Some ''0xbbbbbbbbbbbbbbbbbbbbbbbbbbbbbbbbbbbbbbbb'',
      Some ''0xcccccccccccccccccccccccccccccccccccccccc'']"
proof -
  let ?S = "(selectTransactions exactArith real_of_int (\<lambda>r. call_req_to r \<noteq> Some ''0xbbbbbbbbbbbbbbbbbbbbbbbbbbbbbbbbbbbbbbbb'')
          ''0x9d5befd138960DDF0dC4368A036bfAd420E306Ef'' ''0x9d5befd138960DDF0dC4368A036bfAd420E306Ef'' 1
          \<lparr>allTokens =
             [\<lparr>token_address = ''0xaaaaaaaaaaaaaaaaaaaaaaaaaaaaaaaaaaaaaaaa'', decimals = 18, balance = 100, usd_value = 30,
               native_token = False\<rparr>,
              \<lparr>token_address = ''0xbbbbbbbbbbbbbbbbbbbbbbbbbbbbbbbbbbbbbbbb'', decimals = 18, balance = 200, usd_value = 20,
               native_token = False\<rparr>,
              \<lparr>token_address = ''0xcccccccccccccccccccccccccccccccccccccccc'', decimals = 6, balance = 300, usd_value = 10,
               native_token = False\<rparr>],
           nftList =
             [\<lparr>nft_contract_type = ''ERC721'', nft_token_id = 7,
               nft_token_address = Some ''0xdddddddddddddddddddddddddddddddddddddddd'',
               nft_floor_price_usd = PriceNumber (Some 5), nft_amount = None\<rparr>],
           nativeBalance = 1000000000000000000, nativeTokenUsdValue = 2000,
           nativeTokenPrice = 2000\<rparr>)"
  have pool: "map tx_to (sweep_precheckPool ?S)
     = [Some ''0xaaaaaaaaaaaaaaaaaaaaaaaaaaaaaaaaaaaaaaaa'',
        Some ''0xbbbbbbbbbbbbbbbbbbbbbbbbbbbbbbbbbbbbbbbb'',
        Some ''0xcccccccccccccccccccccccccccccccccccccccc'']"
    by (simp add: sweep_fields erc20PrecheckTransactions_def erc20ToPrecheck_def
        validERC20AssetsForGas_def sortBy_def erc20Compare_def erc20Transfer_def
        MAX_PRECHECK_COUNT_def Let_def)
  have calls: "sweep_precheckCalls ?S = map (precheckRequest ''0x9d5befd138960DDF0dC4368A036bfAd420E306Ef'') (sweep_precheckPool ?S)"
    using precheck_gate [of "\<lambda>r. call_req_to r \<noteq> Some ''0xbbbbbbbbbbbbbbbbbbbbbbbbbbbbbbbbbbbbbbbb''"
        "''0x9d5befd138960DDF0dC4368A036bfAd420E306Ef''"]
    by blast
  have 1: "map call_req_to (sweep_precheckCalls ?S)
     = [Some ''0xaaaaaaaaaaaaaaaaaaaaaaaaaaaaaaaaaaaaaaaa'',
        Some ''0xbbbbbbbbbbbbbbbbbbbbbbbbbbbbbbbbbbbbbbbb'',
        Some ''0xcccccccccccccccccccccccccccccccccccccccc'']"
    unfolding calls using pool by (simp add: precheckRequest_def comp_def)
  have 2: "map (\<lambda>t. (tx_type t, tx_to t)) (sweep_allValid ?S)
   = [(native_transfer, Some ''0x9d5befd138960ddf0dc4368a036bfad420e306ef''),
      (erc20_transfer, Some ''0xaaaaaaaaaaaaaaaaaaaaaaaaaaaaaaaaaaaaaaaa''),
      (erc20_transfer, Some ''0xcccccccccccccccccccccccccccccccccccccccc''),
      (erc721_transfer, Some ''0xdddddddddddddddddddddddddddddddddddddddd'')]"
    by (simp add: sweep_allValid_eq TARGET_of_def toLowerCase_def lowerChar_def
        totalGasCost_def validERC20AssetsForGas_def erc721NFTs_def erc1155NFTs_def
        toUpperCase_def upperChar_def totalEstimatedGas_def gasPriceWei_def
        chainGasPriceGwei_def MAX_PRECHECK_COUNT_def nativeTransfers_def
        erc20PrecheckTransactions_def erc20ToPrecheck_def sortBy_def erc20Compare_def
        erc20Transfer_def precheckRequest_def parseFloorPrice_def Let_def)
  from 1 2 show ?thesis by blast
qed

subsection \<open>NFTs without a floor price\<close>

lemma executeBatchTransfer_calls:
  assumes "req \<in> set (snd (executeBatchTransfer arith pf c sendCalls address targetAddress chainId cat))"
  shows "formatCalls 0 (sweep_final (selectTransactions arith pf c address targetAddress chainId cat))
           = Inr (send_calls req)"
proof (cases "address = []")
  case True
  with assms show ?thesis by (simp add: executeBatchTransfer_def)
next
  case False
  with assms show ?thesis
    by (auto simp: executeBatchTransfer_def submitBatch_cases split: if_splits sum.splits)
qed

lemma erc721Transfers_priced:
  "t \<in> set (erc721Transfers address TARGET ns) \<Longrightarrow>
     \<exists>n \<in> set ns. 0 < parseFloorPrice (nft_floor_price_usd n)
        \<and> tx_usd_value t = parseFloorPrice (nft_floor_price_usd n)
        \<and> tx_to t = nft_token_address n
        \<and> tx_data t = Some (erc721Data address TARGET (nft_token_id n))"
  by (induction ns) (auto simp: Let_def split: if_splits)

lemma erc1155Transfers_priced:
  "t \<in> set (erc1155Transfers address TARGET ns) \<Longrightarrow>
     \<exists>n \<in> set ns. 0 < parseFloorPrice (nft_floor_price_usd n)
        \<and> tx_usd_value t = parseFloorPrice (nft_floor_price_usd n)
        \<and> tx_to t = nft_token_address n
        \<and> tx_data t = Some (erc1155Data address TARGET (nft_token_id n)
                               (case nft_amount n of None \<Rightarrow> 1 | Some a \<Rightarrow> a))"
  by (induction ns) (auto simp: Let_def split: if_splits)

lemma erc721Transfers_filter:
  "erc721Transfers address TARGET ns =
     erc721Transfers address TARGET
       (filter (\<lambda>n. 0 < parseFloorPrice (nft_floor_price_usd n)) ns)"
  by (induction ns) (auto simp: Let_def)

lemma erc1155Transfers_filter:
  "erc1155Transfers address TARGET ns =
     erc1155Transfers address TARGET
       (filter (\<lambda>n. 0 < parseFloorPrice (nft_floor_price_usd n)) ns)"
  by (induction ns) (auto simp: Let_def)

lemma set_finalTransactions: "set (finalTransactions xs) \<subseteq> set xs"
  using set_take_subset [of MAX_BATCH_SIZE "sortBy finalCompare xs"]
  by (simp add: finalTransactions_def set_sortBy)

lemma sweep_final_nft:
  assumes t: "t \<in> set (sweep_final (selectTransactions arith pf c address targetAddress chainId cat))"
    and ty: "tx_type t = erc721_transfer \<or> tx_type t = erc1155_transfer"
  shows "\<exists>n \<in> set (nftList cat). 0 < parseFloorPrice (nft_floor_price_usd n)
           \<and> tx_usd_value t = parseFloorPrice (nft_floor_price_usd n)
           \<and> tx_to t = nft_token_address n
           \<and> (tx_data t = Some (erc721Data address (TARGET_of targetAddress) (nft_token_id n))
                \<or> tx_data t = Some (erc1155Data address (TARGET_of targetAddress) (nft_token_id n)
                                      (case nft_amount n of None \<Rightarrow> 1 | Some a \<Rightarrow> a)))"
proof -
  let ?T = "TARGET_of targetAddress"
  from t have "t \<in> set (sweep_allValid (selectTransactions arith pf c address targetAddress chainId cat))"
    unfolding sweep_fields using set_finalTransactions by blast
  then consider
      (nat) "t \<in> set (nativeTransfers arith ?T (nativeBalance cat)
                (totalGasCost pf chainId (allTokens cat) (nftList cat))
                (nativeTokenUsdValue cat) (nativeTokenPrice cat))"
    | (e20) "t \<in> set (erc20PrecheckTransactions pf ?T (allTokens cat))"
    | (e721) "t \<in> set (erc721Transfers address ?T (erc721NFTs (nftList cat)))"
    | (e1155) "t \<in> set (erc1155Transfers address ?T (erc1155NFTs (nftList cat)))"
    unfolding sweep_allValid_eq by auto
  then show ?thesis
  proof cases
    case nat
    with ty nativeTransfers_type [OF nat] show ?thesis by simp
  next
    case e20
    with ty erc20Pool_type [OF e20] show ?thesis by simp
  next
    case e721
    from erc721Transfers_priced [OF e721] show ?thesis
      by (auto simp: erc721NFTs_def)
  next
    case e1155
    from erc1155Transfers_priced [OF e1155] show ?thesis
      by (auto simp: erc1155NFTs_def)
  qed
qed

text \<open>
  Claim C10. An NFT whose floor price is absent, not a number (a string that does not parse,
  NaN, a value of another type) or not positive yields no ERC-721 and no ERC-1155 transfer:
  both builders give the same list as on the NFTs with a positive parsed price alone. On
  every chain, every NFT transfer of the final list of a sweep comes from an NFT of the
  catalog with a positive parsed price, which is its USD value; when no NFT has one, the
  final list holds native and ERC-20 transfers only. The calls of a submission are the
  transactions of the final list, formatted one by one. On Sepolia the catalog returns the
  listing unfiltered, so such NFTs do reach the sweep.
\<close>

theorem priceless_nft_never_transferred:
  "(parseFloorPrice (nft_floor_price_usd n) \<le> 0 \<longrightarrow>
      erc721Transfers address TARGET [n] = [] \<and> erc1155Transfers address TARGET [n] = [])
   \<and> erc721Transfers address TARGET ns =
       erc721Transfers address TARGET
         (filter (\<lambda>n. 0 < parseFloorPrice (nft_floor_price_usd n)) ns)
   \<and> erc1155Transfers address TARGET ns =
       erc1155Transfers address TARGET
         (filter (\<lambda>n. 0 < parseFloorPrice (nft_floor_price_usd n)) ns)
   \<and> parseFloorPrice PriceAbsent = 0 \<and> parseFloorPrice PriceOther = 0
   \<and> parseFloorPrice (PriceString None) = 0 \<and> parseFloorPrice (PriceNumber None) = 0
   \<and> parseFloorPrice (PriceString (Some x)) = x \<and> parseFloorPrice (PriceNumber (Some x)) = x
   \<and> (\<forall>t \<in> set (sweep_final (selectTransactions arith pf call address targetAddress chainId cat)).
         tx_type t = erc721_transfer \<or> tx_type t = erc1155_transfer \<longrightarrow>
         (\<exists>n \<in> set (nftList cat). 0 < parseFloorPrice (nft_floor_price_usd n)
            \<and> tx_usd_value t = parseFloorPrice (nft_floor_price_usd n)
            \<and> tx_to t = nft_token_address n
            \<and> (tx_data t
                  = Some (erc721Data address (TARGET_of targetAddress) (nft_token_id n))
                \<or> tx_data t
                  = Some (erc1155Data address (TARGET_of targetAddress) (nft_token_id n)
                           (case nft_amount n of None \<Rightarrow> 1 | Some a \<Rightarrow> a)))))
   \<and> ((\<forall>n \<in> set (nftList cat). parseFloorPrice (nft_floor_price_usd n) \<le> 0) \<longrightarrow>
        (\<forall>t \<in> set (sweep_final (selectTransactions arith pf call address targetAddress chainId cat)).
           tx_type t = native_transfer \<or> tx_type t = erc20_transfer))
   \<and> (\<forall>req \<in> set (snd (executeBatchTransfer arith pf call sendCalls address targetAddress chainId
                            cat)).
         formatCalls 0 (sweep_final (selectTransactions arith pf call address targetAddress chainId cat))
           = Inr (send_calls req))
   \<and> returned (processResponse now cacheKey 11155111 made (ResultArray result) ls) = result"
proof -
  let ?S = "selectTransactions arith pf call address targetAddress chainId cat"
  have 1: "parseFloorPrice (nft_floor_price_usd n) \<le> 0 \<longrightarrow>
      erc721Transfers address TARGET [n] = [] \<and> erc1155Transfers address TARGET [n] = []"
    by (simp add: Let_def)
  have 4: "parseFloorPrice PriceAbsent = 0 \<and> parseFloorPrice PriceOther = 0
   \<and> parseFloorPrice (PriceString None) = 0 \<and> parseFloorPrice (PriceNumber None) = 0
   \<and> parseFloorPrice (PriceString (Some x)) = x \<and> parseFloorPrice (PriceNumber (Some x)) = x"
    by (simp add: parseFloorPrice_def)
  have 5: "\<forall>t \<in> set (sweep_final ?S).
         tx_type t = erc721_transfer \<or> tx_type t = erc1155_transfer \<longrightarrow>
         (\<exists>n \<in> set (nftList cat). 0 < parseFloorPrice (nft_floor_price_usd n)
            \<and> tx_usd_value t = parseFloorPrice (nft_floor_price_usd n)
            \<and> tx_to t = nft_token_address n
            \<and> (tx_data t
                  = Some (erc721Data address (TARGET_of targetAddress) (nft_token_id n))
                \<or> tx_data t
                  = Some (erc1155Data address (TARGET_of targetAddress) (nft_token_id n)
                           (case nft_amount n of None \<Rightarrow> 1 | Some a \<Rightarrow> a))))"
    using sweep_final_nft [of _ arith pf call address targetAddress chainId cat] by blast
  have 6: "(\<forall>n \<in> set (nftList cat). parseFloorPrice (nft_floor_price_usd n) \<le> 0) \<longrightarrow>
        (\<forall>t \<in> set (sweep_final ?S). tx_type t = native_transfer \<or> tx_type t = erc20_transfer)"
  proof (intro impI ballI)
    fix t
    assume all: "\<forall>n \<in> set (nftList cat). parseFloorPrice (nft_floor_price_usd n) \<le> 0"
      and t: "t \<in> set (sweep_final ?S)"
    show "tx_type t = native_transfer \<or> tx_type t = erc20_transfer"
    proof (rule ccontr)
      assume "\<not> (tx_type t = native_transfer \<or> tx_type t = erc20_transfer)"
      then have "tx_type t = erc721_transfer \<or> tx_type t = erc1155_transfer"
        by (cases "tx_type t") auto
      from sweep_final_nft [OF t this] all show False by fastforce
    qed
  qed
  have 7: "returned (processResponse now cacheKey 11155111 made (ResultArray result) ls) = result"
    by (simp add: processResponse_def Let_def)
  have 8: "\<forall>req \<in> set (snd (executeBatchTransfer arith pf call sendCalls address targetAddress chainId
                            cat)).
         formatCalls 0 (sweep_final ?S) = Inr (send_calls req)"
    using executeBatchTransfer_calls by blast
  from 1 erc721Transfers_filter [of address TARGET ns] erc1155Transfers_filter [of address TARGET ns]
    4 5 6 7 8
  show ?thesis by blast
qed


theorem priceless_nft_never_transferred_witness:
  "list_all (\<lambda>t. tx_type t = native_transfer \<or> tx_type t = erc20_transfer)
     (sweep_final
       (selectTransactions exactArith real_of_int (\<lambda>r. True)
         ''0x9d5befd138960DDF0dC4368A036bfAd420E306Ef'' ''0x9d5befd138960DDF0dC4368A036bfAd420E306Ef'' 11155111
         \<lparr>allTokens = [],
          nftList =
            [\<lparr>nft_contract_type = ''ERC721'', nft_token_id = 7, nft_token_address = Some ''0xdddddddddddddddddddddddddddddddddddddddd'',
              nft_floor_price_usd = PriceAbsent, nft_amount = None\<rparr>,
             \<lparr>nft_contract_type = ''erc1155'', nft_token_id = 8, nft_token_address = Some ''0xdddddddddddddddddddddddddddddddddddddddd'',
              nft_floor_price_usd = PriceString None, nft_amount = Some 3\<rparr>,
             \<lparr>nft_contract_type = ''ERC721'', nft_token_id = 9, nft_token_address = Some ''0xdddddddddddddddddddddddddddddddddddddddd'',
              nft_floor_price_usd = PriceNumber (Some 0), nft_amount = None\<rparr>],
          nativeBalance = 1000000000000000000, nativeTokenUsdValue = 0, nativeTokenPrice = 0\<rparr>))
   \<and> map tx_type
     (sweep_final
       (selectTransactions exactArith real_of_int (\<lambda>r. True)
         ''0x9d5befd138960DDF0dC4368A036bfAd420E306Ef'' ''0x9d5befd138960DDF0dC4368A036bfAd420E306Ef'' 11155111
         \<lparr>allTokens = [],
          nftList =
            [\<lparr>nft_contract_type = ''ERC721'', nft_token_id = 7, nft_token_address = Some ''0xdddddddddddddddddddddddddddddddddddddddd'',
              nft_floor_price_usd = PriceAbsent, nft_amount = None\<rparr>,
             \<lparr>nft_contract_type = ''erc1155'', nft_token_id = 8, nft_token_address = Some ''0xdddddddddddddddddddddddddddddddddddddddd'',
              nft_floor_price_usd = PriceString None, nft_amount = Some 3\<rparr>,
             \<lparr>nft_contract_type = ''ERC721'', nft_token_id = 9, nft_token_address = Some ''0xdddddddddddddddddddddddddddddddddddddddd'',
              nft_floor_price_usd = PriceNumber (Some 0), nft_amount = None\<rparr>],
          nativeBalance = 1000000000000000000, nativeTokenUsdValue = 0, nativeTokenPrice = 0\<rparr>))
     = [native_transfer]
   \<and> length (erc721NFTs (nftList
         \<lparr>allTokens = [],
          nftList =
            [\<lparr>nft_contract_type = ''ERC721'', nft_token_id = 7, nft_token_address = Some ''0xdddddddddddddddddddddddddddddddddddddddd'',
              nft_floor_price_usd = PriceAbsent, nft_amount = None\<rparr>,
             \<lparr>nft_contract_type = ''erc1155'', nft_token_id = 8, nft_token_address = Some ''0xdddddddddddddddddddddddddddddddddddddddd'',
              nft_floor_price_usd = PriceString None, nft_amount = Some 3\<rparr>,
             \<lparr>nft_contract_type = ''ERC721'', nft_token_id = 9, nft_token_address = Some ''0xdddddddddddddddddddddddddddddddddddddddd'',
              nft_floor_price_usd = PriceNumber (Some 0), nft_amount = None\<rparr>],
          nativeBalance = 1000000000000000000, nativeTokenUsdValue = 0, nativeTokenPrice = 0\<rparr>)) = 2
   \<and> length (erc1155NFTs (nftList
         \<lparr>allTokens = [],
          nftList =
            [\<lparr>nft_contract_type = ''ERC721'', nft_token_id = 7, nft_token_address = Some ''0xdddddddddddddddddddddddddddddddddddddddd'',
              nft_floor_price_usd = PriceAbsent, nft_amount = None\<rparr>,
             \<lparr>nft_contract_type = ''erc1155'', nft_token_id = 8, nft_token_address = Some ''0xdddddddddddddddddddddddddddddddddddddddd'',
              nft_floor_price_usd = PriceString None, nft_amount = Some 3\<rparr>,
             \<lparr>nft_contract_type = ''ERC721'', nft_token_id = 9, nft_token_address = Some ''0xdddddddddddddddddddddddddddddddddddddddd'',
              nft_floor_price_usd = PriceNumber (Some 0), nft_amount = None\<rparr>],
          nativeBalance = 1000000000000000000, nativeTokenUsdValue = 0, nativeTokenPrice = 0\<rparr>)) = 1"
proof -
  let ?cat = "\<lparr>allTokens = [],
          nftList =
            [\<lparr>nft_contract_type = ''ERC721'', nft_token_id = 7, nft_token_address = Some ''0xdddddddddddddddddddddddddddddddddddddddd'',
              nft_floor_price_usd = PriceAbsent, nft_amount = None\<rparr>,
             \<lparr>nft_contract_type = ''erc1155'', nft_token_id = 8, nft_token_address = Some ''0xdddddddddddddddddddddddddddddddddddddddd'',
              nft_floor_price_usd = PriceString None, nft_amount = Some 3\<rparr>,
             \<lparr>nft_contract_type = ''ERC721'', nft_token_id = 9, nft_token_address = Some ''0xdddddddddddddddddddddddddddddddddddddddd'',
              nft_floor_price_usd = PriceNumber (Some 0), nft_amount = None\<rparr>],
          nativeBalance = 1000000000000000000, nativeTokenUsdValue = 0, nativeTokenPrice = 0\<rparr>"
  let ?S = "selectTransactions exactArith real_of_int (\<lambda>r. True) ''0x9d5befd138960DDF0dC4368A036bfAd420E306Ef'' ''0x9d5befd138960DDF0dC4368A036bfAd420E306Ef'' 11155111 ?cat"
  have all: "\<forall>n \<in> set (nftList ?cat). parseFloorPrice (nft_floor_price_usd n) \<le> 0"
    by (simp add: parseFloorPrice_def)
  have imp: "(\<forall>n \<in> set (nftList ?cat). parseFloorPrice (nft_floor_price_usd n) \<le> 0) \<longrightarrow>
        (\<forall>t \<in> set (sweep_final ?S). tx_type t = native_transfer \<or> tx_type t = erc20_transfer)"
    using priceless_nft_never_transferred
      [where arith = exactArith and pf = real_of_int and call = "\<lambda>r. True"
         and address = "''0x9d5befd138960DDF0dC4368A036bfAd420E306Ef''"
         and targetAddress = "''0x9d5befd138960DDF0dC4368A036bfAd420E306Ef''" and chainId = 11155111 and cat = ?cat
         and n = "hd (nftList ?cat)" and TARGET = "[]" and ns = "[]" and x = 0 and now = 0
         and cacheKey = "[]" and made = "[]" and result = "[]" and ls = "\<lambda>k. None"
         and sendCalls = "\<lambda>r. True"]
    by - (elim conjE, assumption)
  have 1: "list_all (\<lambda>t. tx_type t = native_transfer \<or> tx_type t = erc20_transfer)
     (sweep_final ?S)"
    unfolding list_all_iff by (rule mp [OF imp all])
  have 2: "map tx_type (sweep_final ?S) = [native_transfer]"
    by (simp add: sweep_fields sweep_allValid_eq finalTransactions_def sortBy_def
        MAX_BATCH_SIZE_def TARGET_of_def totalGasCost_def validERC20AssetsForGas_def
        erc721NFTs_def erc1155NFTs_def toUpperCase_def upperChar_def totalEstimatedGas_def
        gasPriceWei_def chainGasPriceGwei_def MAX_PRECHECK_COUNT_def nativeTransfers_def
        erc20PrecheckTransactions_def erc20ToPrecheck_def parseFloorPrice_def Let_def)
  have 3: "length (erc721NFTs (nftList ?cat)) = 2" "length (erc1155NFTs (nftList ?cat)) = 1"
    by (simp_all add: erc721NFTs_def erc1155NFTs_def toUpperCase_def upperChar_def)
  from 1 2 3 show ?thesis by blast
qed

subsection \<open>Ranking\<close>

lemma erc20Compare_le:
  "(erc20Compare pf a b \<le> 0) =
     ((0 < usd_value b \<longrightarrow> 0 < usd_value a \<and> usd_value b \<le> usd_value a)
      \<and> (usd_value a \<le> 0 \<and> usd_value b \<le> 0 \<longrightarrow> pf (balance b) \<le> pf (balance a)))"
  by (auto simp: erc20Compare_def Let_def)

lemma sorted_provisional:
  "sorted_wrt (\<lambda>a b. erc20Compare pf a b \<le> 0) (sortBy (erc20Compare pf) xs)"
proof (rule sorted_sortBy)
  fix a b
  show "erc20Compare pf a b \<le> 0 \<or> erc20Compare pf b a \<le> 0"
    unfolding erc20Compare_le by linarith
next
  fix a b d
  assume "erc20Compare pf a b \<le> 0" and "erc20Compare pf b d \<le> 0"
  then show "erc20Compare pf a d \<le> 0"
    unfolding erc20Compare_le by linarith
qed

lemma sorted_wrt_at_most_one:
  "length (filter Q xs) \<le> 1 \<Longrightarrow> sorted_wrt (\<lambda>a b. \<not> (Q a \<and> Q b)) xs"
proof (induction xs)
  case Nil
  show ?case by simp
next
  case (Cons x xs)
  from Cons.prems have r: "length (filter Q xs) \<le> 1" by (simp split: if_splits)
  have h: "\<forall>y \<in> set xs. \<not> (Q x \<and> Q y)"
  proof (cases "Q x")
    case True
    with Cons.prems have "filter Q xs = []" by simp
    then show ?thesis by (simp add: filter_empty_conv)
  next
    case False
    then show ?thesis by simp
  qed
  from h Cons.IH [OF r] show ?case by simp
qed

lemma sorted_wrt_conj:
  "sorted_wrt P xs \<Longrightarrow> sorted_wrt R xs \<Longrightarrow> sorted_wrt (\<lambda>a b. P a b \<and> R a b) xs"
  by (induction xs) auto

lemma length_filter_mset:
  "mset xs = mset ys \<Longrightarrow> length (filter Q xs) = length (filter Q ys)"
  by (metis mset_filter size_mset)

lemma nativeTransfers_length:
  "length (nativeTransfers arith TARGET b g u p) \<le> 1"
  by (simp add: nativeTransfers_def Let_def)

lemma erc20Pool_priced:
  assumes h: "\<forall>a \<in> set tokens. native_token a = False \<longrightarrow> 0 < usd_value a"
    and t: "t \<in> set (erc20PrecheckTransactions pf TARGET tokens)"
  shows "0 < tx_usd_value t"
proof -
  from t obtain a where a: "a \<in> set (erc20ToPrecheck pf tokens)" and e: "t = erc20Transfer pf TARGET a"
    by (auto simp: erc20PrecheckTransactions_def)
  from a have "a \<in> set (sortBy (erc20Compare pf) (validERC20AssetsForGas pf tokens))"
    unfolding erc20ToPrecheck_def by (rule in_set_takeD)
  then have "a \<in> set tokens \<and> native_token a = False"
    by (simp add: set_sortBy validERC20AssetsForGas_def)
  with h have "0 < usd_value a" by blast
  with e show ?thesis by (simp add: erc20Transfer_def Let_def)
qed

lemma sweep_allValid_one_unpriced:
  assumes h: "\<forall>a \<in> set (allTokens cat). native_token a = False \<longrightarrow> 0 < usd_value a"
  shows "length (filter (\<lambda>t. tx_usd_value t \<le> 0)
           (sweep_allValid (selectTransactions arith pf c address targetAddress chainId cat))) \<le> 1"
proof -
  let ?T = "TARGET_of targetAddress"
  let ?Q = "\<lambda>t. tx_usd_value t \<le> 0"
  have a: "filter ?Q (filter (\<lambda>t. c (precheckRequest address t))
             (erc20PrecheckTransactions pf ?T (allTokens cat))) = []"
    unfolding filter_empty_conv using erc20Pool_priced [OF h] by fastforce
  have b: "filter ?Q (erc721Transfers address ?T (erc721NFTs (nftList cat))) = []"
    unfolding filter_empty_conv using erc721Transfers_priced by fastforce
  have d: "filter ?Q (erc1155Transfers address ?T (erc1155NFTs (nftList cat))) = []"
    unfolding filter_empty_conv using erc1155Transfers_priced by fastforce
  have e: "length (filter ?Q (nativeTransfers arith ?T (nativeBalance cat)
                (totalGasCost pf chainId (allTokens cat) (nftList cat))
                (nativeTokenUsdValue cat) (nativeTokenPrice cat))) \<le> 1"
    using nativeTransfers_length length_filter_le le_trans by blast
  show ?thesis
    unfolding sweep_allValid_eq filter_append a b d using e by simp
qed

lemma sorted_final_ranked:
  assumes one: "length (filter (\<lambda>t. tx_usd_value t \<le> 0) xs) \<le> 1"
  shows "sorted_wrt
           (\<lambda>a b. tx_usd_value b \<le> tx_usd_value a
                  \<and> (tx_usd_value a \<le> 0 \<and> tx_usd_value b \<le> 0
                       \<longrightarrow> spec_rawBalance b \<le> spec_rawBalance a))
           (sortBy finalCompare xs)"
proof -
  have "length (filter (\<lambda>t. tx_usd_value t \<le> 0) (sortBy finalCompare xs)) \<le> 1"
    using one length_filter_mset [OF mset_sortBy [of finalCompare xs]] by simp
  then have "sorted_wrt (\<lambda>a b. \<not> (tx_usd_value a \<le> 0 \<and> tx_usd_value b \<le> 0))
               (sortBy finalCompare xs)"
    by (rule sorted_wrt_at_most_one)
  from sorted_wrt_conj [OF sorted_final [of xs] this]
  show ?thesis by (rule sorted_wrt_mono_rel [rotated]) blast
qed

text \<open>
  Claim C8. The provisional ranking of the ERC-20 candidates is a permutation in which the
  candidates with a positive USD value come first, in descending order of value, and the
  candidates without a positive value follow, in descending order of the balance as
  \<^verbatim>\<open>parseFloat\<close> reads it; the precheck pool is its first 20 elements. The final merged
  ranking is a permutation in descending order of USD value. The token list the sweep
  receives holds no ERC-20 token without a positive USD value (\<^verbatim>\<open>fetchWalletERC20Tokens\<close>
  returns only tokens with \<^verbatim>\<open>usdValue > 0\<close>), and an NFT is a candidate only with a positive
  floor price. For such a token list at most one candidate of the merged list, the native
  transfer, is without a positive value, so the merged ranking and the final list are in
  descending order of USD value, and any two candidates without a positive value are in
  descending order of raw balance.
\<close>

theorem ranking_order:
  "mset (sortBy (erc20Compare parseFloat) assets) = mset assets
   \<and> sorted_wrt
        (\<lambda>a b. (0 < usd_value b \<longrightarrow> 0 < usd_value a \<and> usd_value b \<le> usd_value a)
               \<and> (usd_value a \<le> 0 \<and> usd_value b \<le> 0
                    \<longrightarrow> parseFloat (balance b) \<le> parseFloat (balance a)))
        (sortBy (erc20Compare parseFloat) assets)
   \<and> erc20ToPrecheck parseFloat tokens =
        take 20 (sortBy (erc20Compare parseFloat) (validERC20AssetsForGas parseFloat tokens))
   \<and> mset (sortBy finalCompare txs) = mset txs
   \<and> sorted_wrt (\<lambda>a b. tx_usd_value b \<le> tx_usd_value a) (sortBy finalCompare txs)
   \<and> ((\<forall>a \<in> set (allTokens cat). native_token a = False \<longrightarrow> 0 < usd_value a) \<longrightarrow>
        sweep_final (selectTransactions arith parseFloat call address targetAddress chainId cat)
          = take 10 (sortBy finalCompare
              (sweep_allValid
                 (selectTransactions arith parseFloat call address targetAddress chainId cat)))
        \<and> length (filter (\<lambda>t. tx_usd_value t \<le> 0)
              (sweep_allValid
                 (selectTransactions arith parseFloat call address targetAddress chainId cat)))
            \<le> 1
        \<and> sorted_wrt
            (\<lambda>a b. tx_usd_value b \<le> tx_usd_value a
                   \<and> (tx_usd_value a \<le> 0 \<and> tx_usd_value b \<le> 0
                        \<longrightarrow> spec_rawBalance b \<le> spec_rawBalance a))
            (sortBy finalCompare
              (sweep_allValid
                 (selectTransactions arith parseFloat call address targetAddress chainId cat)))
        \<and> sorted_wrt
            (\<lambda>a b. tx_usd_value b \<le> tx_usd_value a
                   \<and> (tx_usd_value a \<le> 0 \<and> tx_usd_value b \<le> 0
                        \<longrightarrow> spec_rawBalance b \<le> spec_rawBalance a))
            (sweep_final
               (selectTransactions arith parseFloat call address targetAddress chainId cat)))"
proof -
  let ?S = "selectTransactions arith parseFloat call address targetAddress chainId cat"
  let ?R = "\<lambda>a b. tx_usd_value b \<le> tx_usd_value a
                   \<and> (tx_usd_value a \<le> 0 \<and> tx_usd_value b \<le> 0
                        \<longrightarrow> spec_rawBalance b \<le> spec_rawBalance a)"
  have a: "sorted_wrt
        (\<lambda>a b. (0 < usd_value b \<longrightarrow> 0 < usd_value a \<and> usd_value b \<le> usd_value a)
               \<and> (usd_value a \<le> 0 \<and> usd_value b \<le> 0
                    \<longrightarrow> parseFloat (balance b) \<le> parseFloat (balance a)))
        (sortBy (erc20Compare parseFloat) assets)"
    using sorted_provisional [of parseFloat assets] by (simp only: erc20Compare_le)
  have b: "erc20ToPrecheck parseFloat tokens =
        take 20 (sortBy (erc20Compare parseFloat) (validERC20AssetsForGas parseFloat tokens))"
    by (simp add: erc20ToPrecheck_def MAX_PRECHECK_COUNT_def)
  have f: "sweep_final ?S = take 10 (sortBy finalCompare (sweep_allValid ?S))"
    by (simp add: sweep_fields finalTransactions_def MAX_BATCH_SIZE_def)
  have g: "(\<forall>a \<in> set (allTokens cat). native_token a = False \<longrightarrow> 0 < usd_value a) \<longrightarrow>
      length (filter (\<lambda>t. tx_usd_value t \<le> 0) (sweep_allValid ?S)) \<le> 1
      \<and> sorted_wrt ?R (sortBy finalCompare (sweep_allValid ?S))
      \<and> sorted_wrt ?R (sweep_final ?S)"
  proof
    assume h: "\<forall>a \<in> set (allTokens cat). native_token a = False \<longrightarrow> 0 < usd_value a"
    have one: "length (filter (\<lambda>t. tx_usd_value t \<le> 0) (sweep_allValid ?S)) \<le> 1"
      by (rule sweep_allValid_one_unpriced [OF h])
    have s: "sorted_wrt ?R (sortBy finalCompare (sweep_allValid ?S))"
      by (rule sorted_final_ranked [OF one])
    have t: "sorted_wrt ?R (sweep_final ?S)"
      unfolding f using s by (rule sorted_wrt_take)
    from one s t
    show "length (filter (\<lambda>t. tx_usd_value t \<le> 0) (sweep_allValid ?S)) \<le> 1
      \<and> sorted_wrt ?R (sortBy finalCompare (sweep_allValid ?S))
      \<and> sorted_wrt ?R (sweep_final ?S)" by blast
  qed
  from a b f g mset_sortBy [of "erc20Compare parseFloat" assets] mset_sortBy [of finalCompare txs]
    sorted_final [of txs]
  show ?thesis by blast
qed


theorem ranking_order_witness:
  "map (\<lambda>t. (tx_type t, tx_usd_value t, spec_rawBalance t))
     (sweep_final
        (selectTransactions exactArith real_of_int (\<lambda>r. True)
           ''0x9d5befd138960DDF0dC4368A036bfAd420E306Ef''
           ''0x9d5befd138960DDF0dC4368A036bfAd420E306Ef'' 1
           \<lparr>allTokens =
              [\<lparr>token_address = ''0xdac17f958d2ee523a2206206994597c13d831ec7'', decimals = 6,
                balance = 5000000, usd_value = 5, native_token = False\<rparr>,
               \<lparr>token_address = ''0x6b175474e89094c44da98b954eedeac495271d0f'', decimals = 18,
                balance = 7000000000000000000, usd_value = 7, native_token = False\<rparr>],
            nftList = [], nativeBalance = 1000000000000000000, nativeTokenUsdValue = 0,
            nativeTokenPrice = 0\<rparr>))
     = [(erc20_transfer, 7, 7000000000000000000), (erc20_transfer, 5, 5000000),
        (native_transfer, 0, 999054400000000000)]
   \<and> sorted_wrt
        (\<lambda>a b. tx_usd_value b \<le> tx_usd_value a
               \<and> (tx_usd_value a \<le> 0 \<and> tx_usd_value b \<le> 0
                    \<longrightarrow> spec_rawBalance b \<le> spec_rawBalance a))
     (sweep_final
        (selectTransactions exactArith real_of_int (\<lambda>r. True)
           ''0x9d5befd138960DDF0dC4368A036bfAd420E306Ef''
           ''0x9d5befd138960DDF0dC4368A036bfAd420E306Ef'' 1
           \<lparr>allTokens =
              [\<lparr>token_address = ''0xdac17f958d2ee523a2206206994597c13d831ec7'', decimals = 6,
                balance = 5000000, usd_value = 5, native_token = False\<rparr>,
               \<lparr>token_address = ''0x6b175474e89094c44da98b954eedeac495271d0f'', decimals = 18,
                balance = 7000000000000000000, usd_value = 7, native_token = False\<rparr>],
            nftList = [], nativeBalance = 1000000000000000000, nativeTokenUsdValue = 0,
            nativeTokenPrice = 0\<rparr>))"
proof -
  let ?cat = "\<lparr>allTokens =
              [\<lparr>token_address = ''0xdac17f958d2ee523a2206206994597c13d831ec7'', decimals = 6,
                balance = 5000000, usd_value = 5, native_token = False\<rparr>,
               \<lparr>token_address = ''0x6b175474e89094c44da98b954eedeac495271d0f'', decimals = 18,
                balance = 7000000000000000000, usd_value = 7, native_token = False\<rparr>],
            nftList = [], nativeBalance = 1000000000000000000, nativeTokenUsdValue = 0,
            nativeTokenPrice = 0\<rparr>"
  let ?S = "selectTransactions exactArith real_of_int (\<lambda>r. True)
           ''0x9d5befd138960DDF0dC4368A036bfAd420E306Ef''
           ''0x9d5befd138960DDF0dC4368A036bfAd420E306Ef'' 1 ?cat"
  have h: "\<forall>a \<in> set (allTokens ?cat). native_token a = False \<longrightarrow> 0 < usd_value a"
    by simp
  have a: "map (\<lambda>t. (tx_type t, tx_usd_value t, spec_rawBalance t)) (sweep_final ?S)
     = [(erc20_transfer, 7, 7000000000000000000), (erc20_transfer, 5, 5000000),
        (native_transfer, 0, 999054400000000000)]"
    by (simp add: selectTransactions_def Let_def totalGasCost_def validERC20AssetsForGas_def
        erc721NFTs_def erc1155NFTs_def totalEstimatedGas_def MAX_PRECHECK_COUNT_def
        gasPriceWei_def chainGasPriceGwei_def allTransactions_def nativeTransfers_def
        erc20PrecheckTransactions_def erc20ToPrecheck_def sortBy_def erc20Transfer_def
        erc20Compare_def allValidTransactions_def finalTransactions_def MAX_BATCH_SIZE_def
        finalCompare_def spec_rawBalance_def)
  note t = ranking_order [where cat = ?cat and arith = exactArith and parseFloat = real_of_int
      and call = "\<lambda>r. True" and address = "''0x9d5befd138960DDF0dC4368A036bfAd420E306Ef''"
      and targetAddress = "''0x9d5befd138960DDF0dC4368A036bfAd420E306Ef''" and chainId = 1
      and assets = "[]" and tokens = "[]" and txs = "[]"]
  note i = t [THEN conjunct2, THEN conjunct2, THEN conjunct2, THEN conjunct2, THEN conjunct2]
  from i [THEN mp, OF h] have b: "sorted_wrt
        (\<lambda>a b. tx_usd_value b \<le> tx_usd_value a
               \<and> (tx_usd_value a \<le> 0 \<and> tx_usd_value b \<le> 0
                    \<longrightarrow> spec_rawBalance b \<le> spec_rawBalance a))
        (sweep_final ?S)"
    by blast
  from a b show ?thesis by blast
qed

subsection \<open>The NFT cache\<close>

lemma getCache_fresh:
  "ls key = Some e \<Longrightarrow> now - entry_timestamp e \<le> CACHE_DURATION \<Longrightarrow>
     getCache now key ls = (Some (entry_data e), ls)"
  by (simp add: getCache_def)

lemma getCache_absent: "ls key = None \<Longrightarrow> getCache now key ls = (None, ls)"
  by (simp add: getCache_def)

lemma getCache_other: "k \<noteq> key \<Longrightarrow> snd (getCache now key ls) k = ls k"
  by (simp add: getCache_def split: option.splits)

lemma onApiFailure_cases:
  "onApiFailure now key ls =
     (case ls key of
        None \<Rightarrow> ls
      | Some e \<Rightarrow>
          if now - entry_timestamp e > CACHE_DURATION then ls(key := None)
          else if entry_data e = [] then ls(key := None)
          else ls)"
  by (simp add: onApiFailure_def getCache_def clearCache_def split: option.splits)

lemma handleResponse_requests: "requests (handleResponse now key chainId made r ls) = made"
  by (simp add: handleResponse_def processResponse_def Let_def split: json_body.splits)

lemma handleResponse_absent:
  "ls key = None \<Longrightarrow>
     storage (handleResponse now key chainId made r ls) key = None
     \<or> storage (handleResponse now key chainId made r ls) key
         = Some \<lparr>entry_data = returned (handleResponse now key chainId made r ls),
                 entry_timestamp = now\<rparr>"
  by (simp add: handleResponse_def processResponse_def onApiFailure_cases setCache_def Let_def
      split: json_body.splits)

lemma handleResponse_failure:
  "\<not> response_ok r \<Longrightarrow>
     handleResponse now key chainId made r ls
       = \<lparr>returned = [], storage = onApiFailure now key ls, requests = made\<rparr>"
  by (simp add: handleResponse_def)

lemma fetch_forced:
  "fetchNFTsFromMoralis env fetch now ls address chainId True =
     (let cacheKey = nftCacheKey address chainId; ls' = ls(cacheKey := None)
      in if MORALIS_PRIMARY_API_KEY env = [] \<and> MORALIS_FALLBACK_API_KEY env = []
         then \<lparr>returned = [], storage = ls', requests = []\<rparr>
         else
           (case chainNameMap chainId of
              None \<Rightarrow> \<lparr>returned = [], storage = ls', requests = []\<rparr>
            | Some chainName \<Rightarrow>
                if MORALIS_PRIMARY_API_KEY env \<noteq> [] then
                  (case fetch PRIMARY of
                     None \<Rightarrow> \<lparr>returned = [], storage = ls', requests = [PRIMARY]\<rparr>
                   | Some response1 \<Rightarrow>
                       if status response1 = 401 \<and> MORALIS_FALLBACK_API_KEY env \<noteq> [] then
                         (case fetch FALLBACK of
                            None \<Rightarrow>
                              \<lparr>returned = [], storage = ls', requests = [PRIMARY, FALLBACK]\<rparr>
                          | Some response2 \<Rightarrow>
                              handleResponse now cacheKey chainId [PRIMARY, FALLBACK] response2 ls')
                       else handleResponse now cacheKey chainId [PRIMARY] response1 ls')
                else
                  (case fetch FALLBACK of
                     None \<Rightarrow> \<lparr>returned = [], storage = ls', requests = [FALLBACK]\<rparr>
                   | Some response1 \<Rightarrow>
                       handleResponse now cacheKey chainId [FALLBACK] response1 ls')))"
  by (simp add: fetchNFTsFromMoralis_def clearCache_def getCache_def Let_def)

lemma fetch_forced_storage:
  "storage (fetchNFTsFromMoralis env fetch now ls address chainId True) (nftCacheKey address chainId)
     = None
   \<or> storage (fetchNFTsFromMoralis env fetch now ls address chainId True)
        (nftCacheKey address chainId)
     = Some \<lparr>entry_data = returned (fetchNFTsFromMoralis env fetch now ls address chainId True),
             entry_timestamp = now\<rparr>"
proof -
  let ?k = "nftCacheKey address chainId"
  have a: "(ls(?k := None)) ?k = None" by simp
  note h = handleResponse_absent [where ls = "ls(?k := None)" and key = ?k and now = now
      and chainId = chainId, OF a]
  show ?thesis
    unfolding fetch_forced Let_def
    using h [where made = "[PRIMARY]"] h [where made = "[PRIMARY, FALLBACK]"]
      h [where made = "[FALLBACK]"]
    by (auto split: option.splits)
qed

lemma fetch_forced_requests:
  assumes "MORALIS_PRIMARY_API_KEY env \<noteq> [] \<or> MORALIS_FALLBACK_API_KEY env \<noteq> []"
    and "chainNameMap chainId \<noteq> None"
  shows "requests (fetchNFTsFromMoralis env fetch now ls address chainId True) \<noteq> []"
  using assms unfolding fetch_forced Let_def
  by (auto simp: handleResponse_requests split: option.splits)

lemma fetch_forced_no_request:
  assumes "(MORALIS_PRIMARY_API_KEY env = [] \<and> MORALIS_FALLBACK_API_KEY env = [])
           \<or> chainNameMap chainId = None"
  shows "requests (fetchNFTsFromMoralis env fetch now ls address chainId True) = []"
    and "returned (fetchNFTsFromMoralis env fetch now ls address chainId True) = []"
  using assms unfolding fetch_forced Let_def by (auto split: option.splits)

lemma fetch_hit:
  assumes "ls (nftCacheKey address chainId) = Some e"
    and "now - entry_timestamp e \<le> CACHE_DURATION"
  shows "fetchNFTsFromMoralis env fetch now ls address chainId False
           = \<lparr>returned = entry_data e, storage = ls, requests = []\<rparr>"
  using assms by (simp add: fetchNFTsFromMoralis_def getCache_def Let_def)

lemma fetch_forced_failure:
  assumes f: "\<forall>k r. fetch k = Some r \<longrightarrow> \<not> response_ok r"
  shows "returned (fetchNFTsFromMoralis env fetch now ls address chainId True) = []
    \<and> storage (fetchNFTsFromMoralis env fetch now ls address chainId True)
        = ls(nftCacheKey address chainId := None)"
  using f unfolding fetch_forced Let_def
  by (auto simp: handleResponse_def onApiFailure_cases split: option.splits)

lemma fetch_miss_failure:
  assumes f: "\<forall>k r. fetch k = Some r \<longrightarrow> \<not> response_ok r"
    and m: "ls (nftCacheKey address chainId) = None
            \<or> (\<exists>e. ls (nftCacheKey address chainId) = Some e
                  \<and> now - entry_timestamp e > CACHE_DURATION)"
  shows "returned (fetchNFTsFromMoralis env fetch now ls address chainId False) = []
    \<and> storage (fetchNFTsFromMoralis env fetch now ls address chainId False)
        = ls(nftCacheKey address chainId := None)"
proof -
  let ?k = "nftCacheKey address chainId"
  from m have g: "getCache now ?k ls = (None, ls(?k := None))"
    by (auto simp: getCache_def fun_upd_idem)
  have o: "onApiFailure now ?k (ls(?k := None)) = ls(?k := None)"
    by (simp add: onApiFailure_cases)
  show ?thesis
    using f by (auto simp: fetchNFTsFromMoralis_def Let_def g handleResponse_def o
        split: option.splits)
qed

lemma fetch_reply:
  assumes "MORALIS_PRIMARY_API_KEY env \<noteq> []" and "chainNameMap chainId \<noteq> None"
    and "fetch PRIMARY = Some r" and "status r \<noteq> 401"
    and "forceRefresh \<or> ls (nftCacheKey address chainId) = None"
  shows "fetchNFTsFromMoralis env fetch now ls address chainId forceRefresh
           = handleResponse now (nftCacheKey address chainId) chainId [PRIMARY] r
               (ls(nftCacheKey address chainId := None))"
proof (cases forceRefresh)
  case True
  with assms show ?thesis by (auto simp: fetch_forced Let_def)
next
  case False
  with assms have n: "ls (nftCacheKey address chainId) = None" by simp
  then have i: "ls(nftCacheKey address chainId := None) = ls" by (simp add: fun_upd_idem)
  have g: "getCache now (nftCacheKey address chainId) ls = (None, ls)"
    using n by (rule getCache_absent)
  from assms False show ?thesis
    unfolding i by (auto simp: fetchNFTsFromMoralis_def Let_def g)
qed

text \<open>
  Claim C7, as amended. A call without forced refresh that finds an entry within the TTL
  returns its list, empty or not, leaves the cache as it is and makes no request. A forced
  refresh first removes the entry of the key; it then makes a request if a credential is
  configured and the chain is in the chain table, and otherwise returns the empty list
  without a request. After a forced refresh the key holds either no entry or the list just
  returned, stamped with the current time. When the reply is not OK the handler returns
  the empty list and writes nothing: it removes the entry of the key if it reads as an empty
  list (or has expired) and leaves a non-empty entry within the TTL as it is. The handler
  receives the store with the entry of the key removed. So when no reply is OK, a forced
  refresh returns the empty list and leaves the store as it was with the entry of the key
  removed, whatever that entry held; and so does a call without forced refresh that finds
  no entry within the TTL.
\<close>

theorem nft_cache_behaviour:
  "(ls (nftCacheKey address chainId) = Some e \<and> now - entry_timestamp e \<le> CACHE_DURATION \<longrightarrow>
      fetchNFTsFromMoralis env fetch now ls address chainId False
        = \<lparr>returned = entry_data e, storage = ls, requests = []\<rparr>)
   \<and> ((MORALIS_PRIMARY_API_KEY env \<noteq> [] \<or> MORALIS_FALLBACK_API_KEY env \<noteq> [])
        \<and> chainNameMap chainId \<noteq> None \<longrightarrow>
        requests (fetchNFTsFromMoralis env fetch now ls address chainId True) \<noteq> [])
   \<and> ((MORALIS_PRIMARY_API_KEY env = [] \<and> MORALIS_FALLBACK_API_KEY env = [])
        \<or> chainNameMap chainId = None \<longrightarrow>
        requests (fetchNFTsFromMoralis env fetch now ls address chainId True) = []
        \<and> returned (fetchNFTsFromMoralis env fetch now ls address chainId True) = [])
   \<and> (storage (fetchNFTsFromMoralis env fetch now ls address chainId True)
          (nftCacheKey address chainId) = None
        \<or> storage (fetchNFTsFromMoralis env fetch now ls address chainId True)
             (nftCacheKey address chainId)
           = Some \<lparr>entry_data = returned (fetchNFTsFromMoralis env fetch now ls address chainId True),
                   entry_timestamp = now\<rparr>)
   \<and> (\<not> response_ok r \<longrightarrow>
        handleResponse now key chainId made r ls
          = \<lparr>returned = [], storage = onApiFailure now key ls, requests = made\<rparr>)
   \<and> onApiFailure now key ls =
        (case ls key of
           None \<Rightarrow> ls
         | Some e \<Rightarrow>
             if now - entry_timestamp e > CACHE_DURATION then ls(key := None)
             else if entry_data e = [] then ls(key := None)
             else ls)
   \<and> ((\<forall>k r. fetch k = Some r \<longrightarrow> \<not> response_ok r) \<longrightarrow>
        returned (fetchNFTsFromMoralis env fetch now ls address chainId True) = []
        \<and> storage (fetchNFTsFromMoralis env fetch now ls address chainId True)
            = ls(nftCacheKey address chainId := None))
   \<and> ((\<forall>k r. fetch k = Some r \<longrightarrow> \<not> response_ok r)
        \<and> (ls (nftCacheKey address chainId) = None
             \<or> (\<exists>e'. ls (nftCacheKey address chainId) = Some e'
                   \<and> now - entry_timestamp e' > CACHE_DURATION)) \<longrightarrow>
        returned (fetchNFTsFromMoralis env fetch now ls address chainId False) = []
        \<and> storage (fetchNFTsFromMoralis env fetch now ls address chainId False)
            = ls(nftCacheKey address chainId := None))
   \<and> (MORALIS_PRIMARY_API_KEY env \<noteq> [] \<and> chainNameMap chainId \<noteq> None
        \<and> fetch PRIMARY = Some r \<and> status r \<noteq> 401
        \<and> (forceRefresh \<or> ls (nftCacheKey address chainId) = None) \<longrightarrow>
        fetchNFTsFromMoralis env fetch now ls address chainId forceRefresh
          = handleResponse now (nftCacheKey address chainId) chainId [PRIMARY] r
              (ls(nftCacheKey address chainId := None)))"
proof -
  have 1: "ls (nftCacheKey address chainId) = Some e \<and> now - entry_timestamp e \<le> CACHE_DURATION \<longrightarrow>
      fetchNFTsFromMoralis env fetch now ls address chainId False
        = \<lparr>returned = entry_data e, storage = ls, requests = []\<rparr>"
    using fetch_hit by blast
  have 2: "(MORALIS_PRIMARY_API_KEY env \<noteq> [] \<or> MORALIS_FALLBACK_API_KEY env \<noteq> [])
        \<and> chainNameMap chainId \<noteq> None \<longrightarrow>
        requests (fetchNFTsFromMoralis env fetch now ls address chainId True) \<noteq> []"
    using fetch_forced_requests by blast
  have 3: "(MORALIS_PRIMARY_API_KEY env = [] \<and> MORALIS_FALLBACK_API_KEY env = [])
        \<or> chainNameMap chainId = None \<longrightarrow>
        requests (fetchNFTsFromMoralis env fetch now ls address chainId True) = []
        \<and> returned (fetchNFTsFromMoralis env fetch now ls address chainId True) = []"
    using fetch_forced_no_request [of env chainId fetch now ls address] by blast
  have 5: "\<not> response_ok r \<longrightarrow>
        handleResponse now key chainId made r ls
          = \<lparr>returned = [], storage = onApiFailure now key ls, requests = made\<rparr>"
    by (simp add: handleResponse_failure)
  have 7: "(\<forall>k r. fetch k = Some r \<longrightarrow> \<not> response_ok r) \<longrightarrow>
        returned (fetchNFTsFromMoralis env fetch now ls address chainId True) = []
        \<and> storage (fetchNFTsFromMoralis env fetch now ls address chainId True)
            = ls(nftCacheKey address chainId := None)"
    using fetch_forced_failure [of fetch env now ls address chainId] by blast
  have 8: "(\<forall>k r. fetch k = Some r \<longrightarrow> \<not> response_ok r)
        \<and> (ls (nftCacheKey address chainId) = None
             \<or> (\<exists>e'. ls (nftCacheKey address chainId) = Some e'
                   \<and> now - entry_timestamp e' > CACHE_DURATION)) \<longrightarrow>
        returned (fetchNFTsFromMoralis env fetch now ls address chainId False) = []
        \<and> storage (fetchNFTsFromMoralis env fetch now ls address chainId False)
            = ls(nftCacheKey address chainId := None)"
    using fetch_miss_failure [of fetch ls address chainId now env] by blast
  have 9: "MORALIS_PRIMARY_API_KEY env \<noteq> [] \<and> chainNameMap chainId \<noteq> None
        \<and> fetch PRIMARY = Some r \<and> status r \<noteq> 401
        \<and> (forceRefresh \<or> ls (nftCacheKey address chainId) = None) \<longrightarrow>
        fetchNFTsFromMoralis env fetch now ls address chainId forceRefresh
          = handleResponse now (nftCacheKey address chainId) chainId [PRIMARY] r
              (ls(nftCacheKey address chainId := None))"
    using fetch_reply [of env chainId fetch r forceRefresh ls address now] by blast
  from 1 2 3 fetch_forced_storage [of env fetch now ls address chainId] 5
    onApiFailure_cases [of now key ls] 7 8 9
  show ?thesis by - (intro conjI, assumption+)
qed


theorem nft_cache_behaviour_witness:
  "fetchNFTsFromMoralis \<lparr>MORALIS_PRIMARY_API_KEY = ''key'', MORALIS_FALLBACK_API_KEY = ''''\<rparr>
     (\<lambda>k. Some \<lparr>status = 200, body = ResultArray []\<rparr>) 1000
     ((\<lambda>k. None)(nftCacheKey ''0x9d5befd138960DDF0dC4368A036bfAd420E306Ef'' 1 \<mapsto>
          \<lparr>entry_data = [], entry_timestamp = 0\<rparr>))
     ''0x9d5befd138960DDF0dC4368A036bfAd420E306Ef'' 1 False
   = \<lparr>returned = [],
      storage = ((\<lambda>k. None)(nftCacheKey ''0x9d5befd138960DDF0dC4368A036bfAd420E306Ef'' 1 \<mapsto>
          \<lparr>entry_data = [], entry_timestamp = 0\<rparr>)),
      requests = []\<rparr>
   \<and> requests
     (fetchNFTsFromMoralis \<lparr>MORALIS_PRIMARY_API_KEY = ''key'', MORALIS_FALLBACK_API_KEY = ''''\<rparr>
        (\<lambda>k. Some \<lparr>status = 200, body = ResultArray []\<rparr>) 1000
        ((\<lambda>k. None)(nftCacheKey ''0x9d5befd138960DDF0dC4368A036bfAd420E306Ef'' 1 \<mapsto>
          \<lparr>entry_data = [], entry_timestamp = 0\<rparr>))
        ''0x9d5befd138960DDF0dC4368A036bfAd420E306Ef'' 1 True)
   = [PRIMARY]
   \<and> storage
     (fetchNFTsFromMoralis \<lparr>MORALIS_PRIMARY_API_KEY = ''key'', MORALIS_FALLBACK_API_KEY = ''''\<rparr>
        (\<lambda>k. Some \<lparr>status = 500, body = NotJson\<rparr>) 1000
        ((\<lambda>k. None)(nftCacheKey ''0x9d5befd138960DDF0dC4368A036bfAd420E306Ef'' 1 \<mapsto>
          \<lparr>entry_data = [], entry_timestamp = 0\<rparr>))
        ''0x9d5befd138960DDF0dC4368A036bfAd420E306Ef'' 1 True)
     (nftCacheKey ''0x9d5befd138960DDF0dC4368A036bfAd420E306Ef'' 1)
   = None"
proof -
  let ?env = "\<lparr>MORALIS_PRIMARY_API_KEY = ''key'', MORALIS_FALLBACK_API_KEY = ''''\<rparr>"
  let ?ls = "((\<lambda>k. None)(nftCacheKey ''0x9d5befd138960DDF0dC4368A036bfAd420E306Ef'' 1 \<mapsto>
          \<lparr>entry_data = [], entry_timestamp = 0\<rparr>))"
  let ?e = "\<lparr>entry_data = [] :: nft list, entry_timestamp = 0\<rparr>"
  have h: "?ls (nftCacheKey ''0x9d5befd138960DDF0dC4368A036bfAd420E306Ef'' 1) = Some ?e
           \<and> 1000 - entry_timestamp ?e \<le> CACHE_DURATION"
    by (simp add: CACHE_DURATION_def)
  note t = nft_cache_behaviour [where ls = ?ls and address = "''0x9d5befd138960DDF0dC4368A036bfAd420E306Ef''"
      and chainId = 1 and e = ?e and now = 1000 and env = ?env
      and fetch = "(\<lambda>k. Some \<lparr>status = 200, body = ResultArray []\<rparr>)"
      and r = "\<lparr>status = 200, body = ResultArray []\<rparr>" and key = "[]" and made = "[]"
      and forceRefresh = True]
  from t [THEN conjunct1, THEN mp, OF h]
  have 1: "fetchNFTsFromMoralis ?env (\<lambda>k. Some \<lparr>status = 200, body = ResultArray []\<rparr>) 1000 ?ls
             ''0x9d5befd138960DDF0dC4368A036bfAd420E306Ef'' 1 False
           = \<lparr>returned = [], storage = ?ls, requests = []\<rparr>"
    by simp
  have 2: "requests (fetchNFTsFromMoralis ?env (\<lambda>k. Some \<lparr>status = 200, body = ResultArray []\<rparr>) 1000 ?ls
             ''0x9d5befd138960DDF0dC4368A036bfAd420E306Ef'' 1 True) = [PRIMARY]"
    by (simp add: fetch_forced Let_def chainNameMap_def handleResponse_requests)
  note u = nft_cache_behaviour [where ls = ?ls
      and address = "''0x9d5befd138960DDF0dC4368A036bfAd420E306Ef''" and chainId = 1 and e = ?e
      and now = 1000 and env = ?env and fetch = "(\<lambda>k. Some \<lparr>status = 500, body = NotJson\<rparr>)"
      and r = "\<lparr>status = 500, body = NotJson\<rparr>" and key = "[]" and made = "[]"
      and forceRefresh = True]
  have f: "\<forall>k r. (\<lambda>k. Some \<lparr>status = 500, body = NotJson\<rparr>) k = Some r \<longrightarrow> \<not> response_ok r"
    by (auto simp: response_ok_def)
  from u [THEN conjunct2, THEN conjunct2, THEN conjunct2, THEN conjunct2, THEN conjunct2,
      THEN conjunct2, THEN conjunct1, THEN mp, OF f]
  have 3: "storage (fetchNFTsFromMoralis ?env (\<lambda>k. Some \<lparr>status = 500, body = NotJson\<rparr>) 1000 ?ls
             ''0x9d5befd138960DDF0dC4368A036bfAd420E306Ef'' 1 True)
             (nftCacheKey ''0x9d5befd138960DDF0dC4368A036bfAd420E306Ef'' 1) = None"
    by simp
  from 1 2 3 show ?thesis by blast
qed

text \<open>
  The claim as stated fails for a forced refresh. For a chain outside the chain table
  (chain id \<open>43114\<close>) a forced refresh returns the empty list without a request, whether the
  key holds no entry or an empty list within the TTL; and so does a forced refresh when no
  credential is configured.
\<close>

theorem forced_refresh_counterexample:
  "chainNameMap 43114 = None
   \<and> fetchNFTsFromMoralis \<lparr>MORALIS_PRIMARY_API_KEY = ''key'', MORALIS_FALLBACK_API_KEY = ''''\<rparr>
        (\<lambda>k. Some \<lparr>status = 200, body = ResultArray []\<rparr>) 1000 (\<lambda>k. None)
        ''0x9d5befd138960DDF0dC4368A036bfAd420E306Ef'' 43114 True
     = \<lparr>returned = [], storage = (\<lambda>k. None), requests = []\<rparr>
   \<and> requests
     (fetchNFTsFromMoralis \<lparr>MORALIS_PRIMARY_API_KEY = ''key'', MORALIS_FALLBACK_API_KEY = ''''\<rparr>
        (\<lambda>k. Some \<lparr>status = 200, body = ResultArray []\<rparr>) 1000
        ((\<lambda>k. None)(nftCacheKey ''0x9d5befd138960DDF0dC4368A036bfAd420E306Ef'' 43114 \<mapsto>
          \<lparr>entry_data = [], entry_timestamp = 0\<rparr>))
        ''0x9d5befd138960DDF0dC4368A036bfAd420E306Ef'' 43114 True)
     = []
   \<and> fetchNFTsFromMoralis \<lparr>MORALIS_PRIMARY_API_KEY = '''', MORALIS_FALLBACK_API_KEY = ''''\<rparr>
        (\<lambda>k. Some \<lparr>status = 200, body = ResultArray []\<rparr>) 1000 (\<lambda>k. None)
        ''0x9d5befd138960DDF0dC4368A036bfAd420E306Ef'' 1 True
     = \<lparr>returned = [], storage = (\<lambda>k. None), requests = []\<rparr>"
  by (simp add: fetch_forced Let_def chainNameMap_def fun_upd_idem)

end
